theory Spec2Isabelle
  imports Complex_Main
begin

section \<open>Behavioural cloning: \<^verbatim>\<open>src/imitation/algorithms/bc.py\<close>\<close>

text \<open>
  The module drives three collaborators that live outside it: the TensorFlow graph and
  session runtime, NumPy's global random generator, and the batch iterator
  \<^verbatim>\<open>stable_baselines.common.dataset.Dataset\<close>. Each is given an executable model below,
  restricted to the operations that \<^verbatim>\<open>bc.py\<close> calls; the functions of \<^verbatim>\<open>bc.py\<close> itself
  are translated line by line on top of these models.

  Every operation threads a \<open>world\<close> and returns a pair: the outcome (\<open>Inl\<close> an
  exception, \<open>Inr\<close> the returned value) and the world as the call leaves it, so that what
  an exception leaves behind is part of the model.
\<close>

subsection \<open>Exceptions\<close>

text \<open>
  Each \<^verbatim>\<open>assert\<close> of the module raises \<^verbatim>\<open>AssertionError\<close>; the constructor of
  \<open>assertion\<close> records which one failed (its message). The specification names these
  failures by role: the count assertion of \<^verbatim>\<open>set_tf_vars\<close> is its
  \<^verbatim>\<open>ShapeMismatchError\<close> (and, reached through \<^verbatim>\<open>reconstruct_policy\<close>, its
  \<^verbatim>\<open>RecordCorruptError\<close>), the scope/variable-list assertion is its
  \<^verbatim>\<open>ConfigurationError\<close>, the session assertions are its \<^verbatim>\<open>NoActiveSessionError\<close>.
\<close>

datatype assertion =
    XorScopeVars               \<comment> \<open>"must give either `tf_vars` xor `scope` kwargs"\<close>
  | CountMismatch nat nat      \<comment> \<open>"{len(tf_vars)} tf variables but {len(values)} values supplied"\<close>
  | SessionOrContext           \<comment> \<open>"must supply session or have one in context"\<close>
  | WithinSessionScope         \<comment> \<open>"need to construct this within a session scope"\<close>
  | SessionKwargOrCtxMgr       \<comment> \<open>"must supply session via kwarg or context mgr"\<close>

datatype error =
    AssertionError assertion
  | AttributeError             \<comment> \<open>attribute read on \<^verbatim>\<open>None\<close>\<close>
  | TypeError                  \<comment> \<open>\<^verbatim>\<open>"% 3.4f" % None\<close>\<close>
  | ZeroDivisionError          \<comment> \<open>\<^verbatim>\<open>n // 0\<close>\<close>
  | ValueError                 \<comment> \<open>TensorFlow: variable already exists; fed value of the wrong shape\<close>
  | InvalidArgumentError       \<comment> \<open>TensorFlow: a placeholder that an op needs was not fed\<close>
  | FailedPreconditionError    \<comment> \<open>TensorFlow: read of an uninitialised variable\<close>
  | FileNotFoundError
  | CallbackError              \<comment> \<open>whatever an \<^verbatim>\<open>on_epoch_end\<close> callback raises\<close>

subsection \<open>NumPy arrays, TensorFlow variables, sessions\<close>

text \<open>
  An array is its element type, its shape and its elements in row-major order. The
  elements are real numbers, tagged with the element type they are stored in.
\<close>

datatype np_dtype = Float32 | Float64 | Int32 | Int64

record ndarray =
  dtype :: np_dtype
  shape :: "nat list"
  elems :: "real list"

text \<open>
  A variable of the default graph: its full name, its static shape, its element type,
  whether it was added to the collection \<^verbatim>\<open>TRAINABLE_VARIABLES\<close>, and the value its
  initialiser gives it.
\<close>

record tf_var =
  var_name :: string
  var_shape :: "nat list"
  var_dtype :: np_dtype
  trainable :: bool
  initial_value :: ndarray

type_synonym sess_id = nat
type_synonym var_store = "string \<rightharpoonup> ndarray"

datatype space = Box "nat list" | Discrete nat

record policy_kwargs =
  ob_space :: space
  ac_space :: space
  n_batch :: "nat option"
  n_env :: nat
  n_steps :: nat

text \<open>
  A policy class is known to this module only through its constructor, which declares
  variables with \<^verbatim>\<open>tf.get_variable\<close> under the variable scope that is current when it is
  called (the convention of \<^verbatim>\<open>stable_baselines\<close> policies). The class is therefore the
  function from the constructor's keyword arguments to the variables it declares, named
  relative to that scope, in declaration order.
\<close>

type_synonym policy_class = "policy_kwargs \<Rightarrow> tf_var list"

record base_policy =
  pol_sess :: sess_id
  pol_scope :: string
  pol_variables :: "tf_var list"

text \<open>The pickled dictionary \<^verbatim>\<open>{"class": ..., "kwargs": ..., "params": ...}\<close>.\<close>

record saved_policy =
  saved_class :: policy_class
  saved_kwargs :: policy_kwargs
  saved_params :: "ndarray list"

text \<open>One call \<^verbatim>\<open>sess.run([train_op, log_loss], feed_dict)\<close>: the two arrays fed.\<close>

record feed_dict =
  fed_acts :: "real list list"
  fed_obs :: "real list list"

text \<open>
  The world: the variables of the default graph in creation order, the default session
  (if a \<^verbatim>\<open>with sess.as_default()\<close> block is active), the variable values held by each
  session, the file system (pickle files and directories), the stream of raw draws left
  in NumPy's global generator, the conversion of one element from one element type to
  another (what \<^verbatim>\<open>np.asarray(value, dtype=...)\<close> does to each element: rounding to the
  target float format, truncation to an integer; the model leaves it to the world, so
  that what is proved holds for every such conversion), and three traces: the feeds of
  the optimiser steps run so far, the batch losses posted to the inner progress bar
  (\<^verbatim>\<open>tq_iter.set_postfix\<close>) and the loss averages posted to the epoch progress bar
  (\<^verbatim>\<open>epoch_iter.set_postfix\<close>). The number formatting of the progress bars is not
  modelled: a posted value is the number.
\<close>

record world =
  graph_variables :: "tf_var list"
  default_session :: "sess_id option"
  session_values :: "sess_id \<Rightarrow> var_store"
  files :: "string \<rightharpoonup> saved_policy"
  directories :: "string set"
  np_random :: "nat \<Rightarrow> nat"
  np_cast :: "np_dtype \<Rightarrow> np_dtype \<Rightarrow> real \<Rightarrow> real"
  train_runs :: "feed_dict list"
  batch_postfix :: "real list"
  epoch_postfix :: "real list"

text \<open>
  \<^verbatim>\<open>tf.get_collection(TRAINABLE_VARIABLES, scope=s)\<close> keeps the trainable variables whose
  name matches \<open>s\<close> at its start (\<^verbatim>\<open>re.match\<close>; the scopes used here contain no regular
  expression operator, so this is a prefix test).
\<close>

definition get_collection :: "tf_var list \<Rightarrow> string \<Rightarrow> tf_var list" where
  "get_collection g s = filter (\<lambda>v. trainable v \<and> take (length s) (var_name v) = s) g"

text \<open>
  \<^verbatim>\<open>tf.get_variable\<close> for each declared variable under scope \<open>s\<close>, reuse off: a name
  that the graph already has raises \<^verbatim>\<open>ValueError\<close>; the variables created before it stay
  in the graph.
\<close>

fun get_variables :: "string \<Rightarrow> tf_var list \<Rightarrow> tf_var list \<Rightarrow> (error + tf_var list) \<times> tf_var list" where
  "get_variables s [] g = (Inr [], g)"
| "get_variables s (d # ds) g =
     (let v = d\<lparr>var_name := s @ ''/'' @ var_name d\<rparr> in
      if var_name v \<in> set (map var_name g) then (Inl ValueError, g)
      else (case get_variables s ds (g @ [v]) of
              (Inl e, g') \<Rightarrow> (Inl e, g')
            | (Inr vs, g') \<Rightarrow> (Inr (v # vs), g')))"

text \<open>\<^verbatim>\<open>klass(sess=sess, **kwargs)\<close> inside \<^verbatim>\<open>with tf.variable_scope(s)\<close>.\<close>

definition construct_policy ::
  "policy_class \<Rightarrow> sess_id \<Rightarrow> policy_kwargs \<Rightarrow> string \<Rightarrow> world \<Rightarrow> (error + base_policy) \<times> world" where
  "construct_policy klass sess kwargs s w =
     (case get_variables s (klass kwargs) (graph_variables w) of
        (Inl e, g') \<Rightarrow> (Inl e, w\<lparr>graph_variables := g'\<rparr>)
      | (Inr vs, g') \<Rightarrow>
          (Inr \<lparr>pol_sess = sess, pol_scope = s, pol_variables = vs\<rparr>, w\<lparr>graph_variables := g'\<rparr>))"

text \<open>
  Placeholders are graph nodes; two placeholders made by different calls of
  \<^verbatim>\<open>tf.placeholder\<close> are different dictionary keys even when their shapes and element
  types agree, which the index \<open>ph_id\<close> stands for.
\<close>

record placeholder =
  ph_id :: nat
  ph_shape :: "nat list"
  ph_dtype :: np_dtype

text \<open>
  \<^verbatim>\<open>np.asarray(value, dtype=dt)\<close>: an array that already has the element type \<open>dt\<close> is
  returned as it is; any other array is converted element by element and tagged \<open>dt\<close>.
\<close>

definition astype :: "(np_dtype \<Rightarrow> np_dtype \<Rightarrow> real \<Rightarrow> real) \<Rightarrow> np_dtype \<Rightarrow> ndarray \<Rightarrow> ndarray" where
  "astype cast dt x =
     (if dtype x = dt then x
      else x\<lparr>dtype := dt, elems := map (cast (dtype x) dt) (elems x)\<rparr>)"

text \<open>
  \<^verbatim>\<open>sess.run(assign_ops, feed_dict=...)\<close>. The session first converts every fed value
  to the element type of its placeholder, checks the converted value against the
  placeholder's shape and raises \<^verbatim>\<open>ValueError\<close> before running anything; then each
  \<^verbatim>\<open>tf.assign(var, ph)\<close> writes the converted value fed for \<open>ph\<close> into \<open>var\<close>.
  TensorFlow leaves the order of the assignments open; the model runs them in list
  order, which gives the same store whenever the variables are distinct.
\<close>

fun run_assign_ops ::
  "(tf_var \<times> placeholder) list \<Rightarrow> (placeholder \<rightharpoonup> ndarray) \<Rightarrow> var_store \<Rightarrow> (error + unit) \<times> var_store" where
  "run_assign_ops [] fd st = (Inr (), st)"
| "run_assign_ops ((v, ph) # ops) fd st =
     (case fd ph of
        None \<Rightarrow> (Inl InvalidArgumentError, st)
      | Some x \<Rightarrow> run_assign_ops ops fd (st(var_name v \<mapsto> x)))"

definition sess_run_assign ::
  "sess_id \<Rightarrow> (tf_var \<times> placeholder) list \<Rightarrow> (placeholder \<times> ndarray) list \<Rightarrow> world
     \<Rightarrow> (error + unit) \<times> world" where
  "sess_run_assign s assign_ops feed w =
     (let np_feed = map (\<lambda>(ph, x). (ph, astype (np_cast w) (ph_dtype ph) x)) feed
      in if list_ex (\<lambda>(ph, x). shape x \<noteq> ph_shape ph) np_feed then (Inl ValueError, w)
         else (case run_assign_ops assign_ops (map_of np_feed) (session_values w s) of
                 (r, st) \<Rightarrow> (r, w\<lparr>session_values := (session_values w)(s := st)\<rparr>)))"

text \<open>
  \<^verbatim>\<open>sess.run(variables)\<close>: the values of the variables in order; reading a variable that
  holds no value in this session raises \<^verbatim>\<open>FailedPreconditionError\<close>.
\<close>

fun sess_run_fetch :: "var_store \<Rightarrow> tf_var list \<Rightarrow> error + ndarray list" where
  "sess_run_fetch st [] = Inr []"
| "sess_run_fetch st (v # vs) =
     (case st (var_name v) of
        None \<Rightarrow> Inl FailedPreconditionError
      | Some x \<Rightarrow> (case sess_run_fetch st vs of Inl e \<Rightarrow> Inl e | Inr xs \<Rightarrow> Inr (x # xs)))"

subsection \<open>\<^verbatim>\<open>set_tf_vars\<close>\<close>

definition set_tf_vars ::
  "ndarray list \<Rightarrow> string option \<Rightarrow> tf_var list option \<Rightarrow> sess_id option \<Rightarrow> world
     \<Rightarrow> (error + unit) \<times> world" where
  "set_tf_vars values scope tf_vars sess w =
     (case (case scope of
              Some s \<Rightarrow> (if tf_vars = None
                         then Inr (get_collection (graph_variables w) s)
                         else Inl (AssertionError XorScopeVars))
            | None \<Rightarrow> (case tf_vars of
                         None \<Rightarrow> Inl (AssertionError XorScopeVars)
                       | Some vs \<Rightarrow> Inr vs)) of
        Inl e \<Rightarrow> (Inl e, w)
      | Inr vs \<Rightarrow>
          if length vs \<noteq> length values
          then (Inl (AssertionError (CountMismatch (length vs) (length values))), w)
          else (case (case sess of Some s \<Rightarrow> Some s | None \<Rightarrow> default_session w) of
                  None \<Rightarrow> (Inl (AssertionError SessionOrContext), w)
                | Some s \<Rightarrow>
                    (let placeholders =
                           map (\<lambda>(i, v). \<lparr>ph_id = i, ph_shape = var_shape v, ph_dtype = var_dtype v\<rparr>) (zip [0..<length vs] vs);
                         assign_ops = zip vs placeholders
                     in sess_run_assign s assign_ops (zip placeholders values) w)))"


subsection \<open>\<^verbatim>\<open>BCTrainer.reconstruct_policy\<close>\<close>

text \<open>
  A static method: session from the argument or the context, the pickle read back, the
  policy built under \<^verbatim>\<open>tf.variable_scope("reconstructed_policy")\<close>, whose name is also
  what \<^verbatim>\<open>tf.get_variable_scope().name\<close> returns inside the block (the call is taken at the
  root variable scope), and the saved values written with \<open>set_tf_vars\<close>.
\<close>

definition reconstruct_policy ::
  "string \<Rightarrow> sess_id option \<Rightarrow> world \<Rightarrow> (error + base_policy) \<times> world" where
  "reconstruct_policy policy_path sess w =
     (case (case sess of
              Some s \<Rightarrow> Some s
            | None \<Rightarrow> default_session w) of
        None \<Rightarrow> (Inl (AssertionError SessionKwargOrCtxMgr), w)
      | Some s \<Rightarrow>
          (case files w policy_path of
             None \<Rightarrow> (Inl FileNotFoundError, w)
           | Some loaded_pickle \<Rightarrow>
               (let klass = saved_class loaded_pickle;
                    kwargs = saved_kwargs loaded_pickle
                in case construct_policy klass s kwargs ''reconstructed_policy'' w of
                     (Inl e, w1) \<Rightarrow> (Inl e, w1)
                   | (Inr rv_pol, w1) \<Rightarrow>
                       (let inner_scope = ''reconstructed_policy'';
                            param_values = saved_params loaded_pickle
                        in case set_tf_vars param_values (Some inner_scope) None (Some s) w1 of
                             (Inl e, w2) \<Rightarrow> (Inl e, w2)
                           | (Inr u, w2) \<Rightarrow> (Inr rv_pol, w2)))))"

subsection \<open>Expert transitions and the batch iterator\<close>

text \<open>
  Modelled from the spec: \<^verbatim>\<open>imitation.data.types.Transitions\<close> is not among the sources.
  Section 3 of the specification describes it as a fixed collection of aligned tuples
  (observation, action, next observation, reward); \<^verbatim>\<open>expert_demos.obs\<close> and
  \<^verbatim>\<open>expert_demos.acts\<close> are its observation and action columns. A row of a NumPy array
  is the list of its entries.
\<close>

record transition =
  obs :: "real list"
  act :: "real list"
  next_obs :: "real list"
  rew :: real

type_synonym transitions = "transition list"

text \<open>
  NumPy's \<^verbatim>\<open>np.random.shuffle\<close> on a list of length \<open>n\<close>: for \<open>i\<close> from \<open>n - 1\<close> down to
  \<open>1\<close> it draws \<open>j\<close> from \<open>0..i\<close> and swaps the entries \<open>i\<close> and \<open>j\<close>. The generator is the
  stream of its raw draws; a draw for the bound \<open>i\<close> is the next raw draw modulo \<open>i + 1\<close>.
\<close>

fun shuffle_from :: "nat \<Rightarrow> (nat \<Rightarrow> nat) \<Rightarrow> 'a list \<Rightarrow> 'a list" where
  "shuffle_from 0 r xs = xs"
| "shuffle_from (Suc i) r xs =
     (let j = r 0 mod Suc (Suc i)
      in shuffle_from i (\<lambda>k. r (Suc k)) (xs[Suc i := xs ! j, j := xs ! Suc i]))"

definition np_random_shuffle :: "'a list \<Rightarrow> world \<Rightarrow> 'a list \<times> world" where
  "np_random_shuffle xs w =
     (shuffle_from (length xs - 1) (np_random w) xs,
      w\<lparr>np_random := (\<lambda>k. np_random w (k + (length xs - 1)))\<rparr>)"

text \<open>
  Modelled from the spec: \<^verbatim>\<open>stable_baselines.common.dataset.Dataset\<close> is not among the
  sources. Section 4.2 of the specification describes it: batches of exactly \<open>B\<close> aligned
  pairs drawn from a full random shuffle, a fresh shuffle at the start of every pass,
  \<open>floor(N/B)\<close> batches in a pass, the trailing partial batch dropped; section 3 names its
  state, a shuffle order and a cursor. The model follows the library's methods
  \<^verbatim>\<open>__init__\<close>, \<^verbatim>\<open>shuffle_dataset\<close>, \<^verbatim>\<open>next_batch\<close> and \<^verbatim>\<open>iterate_once\<close>, with
  \<^verbatim>\<open>shuffle=True\<close> as this module always passes it. \<open>data_obs\<close> and \<open>data_act\<close> are the
  entries \<^verbatim>\<open>"obs"\<close> and \<^verbatim>\<open>"act"\<close> of its \<^verbatim>\<open>data_map\<close>.
\<close>

record dataset =
  data_obs :: "real list list"
  data_act :: "real list list"
  n_samples :: nat
  next_id :: nat

record batch_dict =
  batch_obs :: "real list list"
  batch_act :: "real list list"

definition shuffle_dataset :: "dataset \<Rightarrow> world \<Rightarrow> dataset \<times> world" where
  "shuffle_dataset ds w =
     (case np_random_shuffle [0..<n_samples ds] w of
        (perm, w') \<Rightarrow>
          (ds\<lparr>data_obs := map (\<lambda>i. data_obs ds ! i) perm,
              data_act := map (\<lambda>i. data_act ds ! i) perm\<rparr>, w'))"

definition Dataset_init :: "real list list \<Rightarrow> real list list \<Rightarrow> world \<Rightarrow> dataset \<times> world" where
  "Dataset_init obs_column act_column w =
     shuffle_dataset
       \<lparr>data_obs = obs_column, data_act = act_column,
        n_samples = length obs_column, next_id = 0\<rparr> w"

definition next_batch :: "nat \<Rightarrow> dataset \<Rightarrow> world \<Rightarrow> batch_dict \<times> dataset \<times> world" where
  "next_batch batch_size' ds w =
     (case (if n_samples ds \<le> next_id ds then shuffle_dataset (ds\<lparr>next_id := 0\<rparr>) w else (ds, w)) of
        (ds1, w1) \<Rightarrow>
          (let cur_id = next_id ds1;
               cur_batch_size = min batch_size' (n_samples ds1 - next_id ds1)
           in (\<lparr>batch_obs = take cur_batch_size (drop cur_id (data_obs ds1)),
                batch_act = take cur_batch_size (drop cur_id (data_act ds1))\<rparr>,
               ds1\<lparr>next_id := next_id ds1 + cur_batch_size\<rparr>, w1)))"

text \<open>
  The loop of \<^verbatim>\<open>iterate_once\<close>: \<^verbatim>\<open>while self._next_id <= self.n_samples - batch_size\<close>,
  with the subtraction moved to the other side since it is one of integers. The batches
  the generator yields are collected in a list: the loop body of \<^verbatim>\<open>train\<close> that
  consumes them touches neither the data set nor the random generator. With a batch
  size of \<open>0\<close> the Python loop never ends; \<^verbatim>\<open>train\<close> raises before it creates the
  generator in that case, and the test \<open>0 < batch_size'\<close> only makes the recursion total.
\<close>

function iterate_batches :: "nat \<Rightarrow> dataset \<Rightarrow> world \<Rightarrow> batch_dict list \<times> dataset \<times> world" where
  "iterate_batches batch_size' ds w =
     (if 0 < batch_size' \<and> next_id ds + batch_size' \<le> n_samples ds
      then (case next_batch batch_size' ds w of
              (b, ds1, w1) \<Rightarrow>
                (case iterate_batches batch_size' ds1 w1 of
                   (bs, ds2, w2) \<Rightarrow> (b # bs, ds2, w2)))
      else ([], ds, w))"
  by pat_completeness auto
termination
  apply (relation "measure (\<lambda>(b, ds, w). Suc (n_samples ds) - next_id ds)")
   apply simp
  apply (auto simp: next_batch_def Let_def min_def split: if_splits prod.splits)
  done

declare iterate_batches.simps [simp del]

text \<open>\<^verbatim>\<open>iterate_once\<close>: a fresh shuffle, the full batches, the cursor back at \<open>0\<close>.\<close>

definition iterate_once :: "nat \<Rightarrow> dataset \<Rightarrow> world \<Rightarrow> batch_dict list \<times> dataset \<times> world" where
  "iterate_once batch_size' ds w =
     (case shuffle_dataset ds w of
        (ds0, w0) \<Rightarrow>
          (case iterate_batches batch_size' ds0 w0 of
             (bs, ds1, w1) \<Rightarrow> (bs, ds1\<lparr>next_id := 0\<rparr>, w1)))"


subsection \<open>The trainer\<close>

text \<open>
  The environment is read only for its two spaces. An optimiser instance is its class
  and the keyword arguments it was made with; the loss node is the mean negative
  log-likelihood of the reference actions under the policy built in the named scope;
  the training operation is \<^verbatim>\<open>opt.minimize(loss)\<close>.
\<close>

record gym_env =
  observation_space :: space
  action_space :: space

datatype optimiser_class =
  AdamOptimizer | GradientDescentOptimizer | MomentumOptimizer | RMSPropOptimizer

record optimizer =
  opt_class :: optimiser_class
  opt_kwargs :: "(string \<times> real) list"

datatype loss_node = ReduceMeanNeglogp string

record minimize_op =
  minimize_with :: optimizer
  minimize_loss :: loss_node

text \<open>
  The attributes that \<^verbatim>\<open>BCTrainer\<close> assigns to \<^verbatim>\<open>self\<close>. The batch size is a natural
  number: a negative batch size is not modelled, a batch size of \<open>0\<close> is.
\<close>

record trainer =
  env :: gym_env
  policy_class :: policy_class
  batch_size :: nat
  expert_dataset :: "dataset option"
  sess :: sess_id
  policy_kwargs :: policy_kwargs
  policy :: base_policy
  policy_variables :: "tf_var list"
  log_loss :: loss_node
  train_op :: minimize_op

text \<open>
  \<^verbatim>\<open>Dataset({"obs": expert_demos.obs, "act": expert_demos.acts}, shuffle=True)\<close>, the
  right-hand side of \<^verbatim>\<open>set_expert_dataset\<close>, which \<^verbatim>\<open>__init__\<close> also runs when it is
  given demonstrations.
\<close>

definition make_expert_dataset :: "transitions \<Rightarrow> world \<Rightarrow> dataset \<times> world" where
  "make_expert_dataset expert_demos w = Dataset_init (map obs expert_demos) (map act expert_demos) w"

definition set_expert_dataset :: "trainer \<Rightarrow> transitions \<Rightarrow> world \<Rightarrow> trainer \<times> world" where
  "set_expert_dataset self expert_demos w =
     (case make_expert_dataset expert_demos w of
        (ds, w') \<Rightarrow> (self\<lparr>expert_dataset := Some ds\<rparr>, w'))"

text \<open>
  \<^verbatim>\<open>_build_tf_graph\<close>, called at the root variable scope: the policy is built under
  \<^verbatim>\<open>bc_supervised_loss/model\<close>, the recorded variables are the trainable ones under that
  scope, and the optimiser is \<^verbatim>\<open>tf.train.AdamOptimizer()\<close>. The optimiser's own
  (non-trainable) slot variables are left out of the graph.
\<close>

definition build_tf_graph ::
  "gym_env \<Rightarrow> policy_class \<Rightarrow> sess_id \<Rightarrow> world
     \<Rightarrow> (error + policy_kwargs \<times> base_policy \<times> tf_var list \<times> loss_node \<times> minimize_op) \<times> world" where
  "build_tf_graph env' policy_class' sess' w =
     (let kwargs = \<lparr>ob_space = observation_space env', ac_space = action_space env',
                     n_batch = None, n_env = 1, n_steps = 1000\<rparr>
      in case construct_policy policy_class' sess' kwargs ''bc_supervised_loss/model'' w of
           (Inl e, w1) \<Rightarrow> (Inl e, w1)
         | (Inr pol, w1) \<Rightarrow>
             (let inner_scope = ''bc_supervised_loss/model'';
                  variables = get_collection (graph_variables w1) inner_scope;
                  loss = ReduceMeanNeglogp (pol_scope pol);
                  opt = \<lparr>opt_class = AdamOptimizer, opt_kwargs = []\<rparr>
              in (Inr (kwargs, pol, variables, loss, \<lparr>minimize_with = opt, minimize_loss = loss\<rparr>), w1)))"

text \<open>\<^verbatim>\<open>sess.run(tf.global_variables_initializer())\<close>: every variable of the graph takes its initial value.\<close>

definition global_variables_initializer :: "sess_id \<Rightarrow> world \<Rightarrow> world" where
  "global_variables_initializer s w =
     w\<lparr>session_values := (session_values w)
        (s := session_values w s ++ map_of (map (\<lambda>v. (var_name v, initial_value v)) (graph_variables w)))\<rparr>"

text \<open>
  \<^verbatim>\<open>BCTrainer.__init__\<close>. The arguments \<open>optimiser_cls\<close>, \<open>optimiser_kwargs\<close>,
  \<open>name_scope\<close> and \<open>reuse\<close> are accepted as in the source.
\<close>

definition BCTrainer_init ::
  "gym_env \<Rightarrow> transitions option \<Rightarrow> policy_class \<Rightarrow> nat \<Rightarrow> optimiser_class
     \<Rightarrow> (string \<times> real) list option \<Rightarrow> string option \<Rightarrow> bool \<Rightarrow> world \<Rightarrow> (error + trainer) \<times> world" where
  "BCTrainer_init env' expert_demos policy_class' batch_size' optimiser_cls optimiser_kwargs
       name_scope reuse w =
     (case (case expert_demos of
              Some demos \<Rightarrow> (case make_expert_dataset demos w of (ds, w') \<Rightarrow> (Some ds, w'))
            | None \<Rightarrow> (None, w)) of
        (dataset', w1) \<Rightarrow>
          (case default_session w1 of
             None \<Rightarrow> (Inl (AssertionError WithinSessionScope), w1)
           | Some s \<Rightarrow>
               (case build_tf_graph env' policy_class' s w1 of
                  (Inl e, w2) \<Rightarrow> (Inl e, w2)
                | (Inr (kwargs, pol, variables, loss, minimize), w2) \<Rightarrow>
                    (Inr \<lparr>env = env', policy_class = policy_class', batch_size = batch_size',
                          expert_dataset = dataset', sess = s, policy_kwargs = kwargs,
                          policy = pol, policy_variables = variables, log_loss = loss,
                          train_op = minimize\<rparr>,
                     global_variables_initializer s w2))))"

text \<open>
  \<^verbatim>\<open>train\<close>. The callback receives \<^verbatim>\<open>locals()\<close>, of which the fields below are kept; it is
  observed through whether it raises, and what it may do to the objects it reaches
  through \<^verbatim>\<open>locals()\<close> is outside the model. The TensorFlow runtime is a parameter: for a
  training operation, a feed and the variable values of the session it gives the values
  after the step and the loss.
\<close>

record train_locals =
  l_n_epochs :: int
  l_epoch_num :: nat
  l_total_batches :: nat
  l_loss_ewma :: real

type_synonym tf_runtime = "minimize_op \<Rightarrow> feed_dict \<Rightarrow> var_store \<Rightarrow> var_store \<times> real"

text \<open>The inner loop: one optimiser step per batch, then the moving average of the loss.\<close>

fun batch_loop ::
  "tf_runtime \<Rightarrow> trainer \<Rightarrow> batch_dict list \<Rightarrow> real option \<Rightarrow> world \<Rightarrow> real option \<times> world" where
  "batch_loop rt self [] loss_ewma w = (loss_ewma, w)"
| "batch_loop rt self (b # bs) loss_ewma w =
     (let feed = \<lparr>fed_acts = batch_act b, fed_obs = batch_obs b\<rparr>
      in case rt (train_op self) feed (session_values w (sess self)) of
           (st', loss) \<Rightarrow>
             batch_loop rt self bs
               (Some (case loss_ewma of None \<Rightarrow> loss | Some e \<Rightarrow> 0.9 * e + 0.1 * loss))
               (w\<lparr>session_values := (session_values w)(sess self := st'),
                  train_runs := train_runs w @ [feed],
                  batch_postfix := batch_postfix w @ [loss]\<rparr>))"

text \<open>
  The body of the epoch loop. \<^verbatim>\<open>self.expert_dataset.n_samples\<close> raises on \<^verbatim>\<open>None\<close>, the
  floor division raises on a batch size of \<open>0\<close>, and \<^verbatim>\<open>"% 3.4f" % loss_ewma\<close> raises when
  the average was never seeded.
\<close>

definition train_epoch ::
  "tf_runtime \<Rightarrow> (train_locals \<Rightarrow> error option) option \<Rightarrow> int \<Rightarrow> nat \<Rightarrow> trainer \<Rightarrow> world
     \<Rightarrow> (error + unit) \<times> trainer \<times> world" where
  "train_epoch rt on_epoch_end n_epochs epoch_num self w =
     (case expert_dataset self of
        None \<Rightarrow> (Inl AttributeError, self, w)
      | Some ds \<Rightarrow>
          if batch_size self = 0 then (Inl ZeroDivisionError, self, w)
          else (let total_batches = n_samples ds div batch_size self
                in case iterate_once (batch_size self) ds w of
                     (batches, ds', w1) \<Rightarrow>
                       (let self' = self\<lparr>expert_dataset := Some ds'\<rparr>
                        in case batch_loop rt self' batches None w1 of
                             (None, w2) \<Rightarrow> (Inl TypeError, self', w2)
                           | (Some loss_ewma, w2) \<Rightarrow>
                               (let w3 = w2\<lparr>epoch_postfix := epoch_postfix w2 @ [loss_ewma]\<rparr>
                                in case on_epoch_end of
                                     None \<Rightarrow> (Inr (), self', w3)
                                   | Some callback \<Rightarrow>
                                       (case callback \<lparr>l_n_epochs = n_epochs, l_epoch_num = epoch_num,
                                                       l_total_batches = total_batches,
                                                       l_loss_ewma = loss_ewma\<rparr> of
                                          Some e \<Rightarrow> (Inl e, self', w3)
                                        | None \<Rightarrow> (Inr (), self', w3))))))"

text \<open>\<^verbatim>\<open>for epoch_num in trange(n_epochs)\<close>: the epochs \<open>0, \<dots>, n_epochs - 1\<close>, none when \<open>n_epochs \<le> 0\<close>.\<close>

fun epoch_loop ::
  "tf_runtime \<Rightarrow> (train_locals \<Rightarrow> error option) option \<Rightarrow> int \<Rightarrow> nat list \<Rightarrow> trainer \<Rightarrow> world
     \<Rightarrow> (error + unit) \<times> trainer \<times> world" where
  "epoch_loop rt on_epoch_end n_epochs [] self w = (Inr (), self, w)"
| "epoch_loop rt on_epoch_end n_epochs (epoch_num # rest) self w =
     (case train_epoch rt on_epoch_end n_epochs epoch_num self w of
        (Inl e, self', w') \<Rightarrow> (Inl e, self', w')
      | (Inr u, self', w') \<Rightarrow> epoch_loop rt on_epoch_end n_epochs rest self' w')"

definition train ::
  "tf_runtime \<Rightarrow> trainer \<Rightarrow> int \<Rightarrow> (train_locals \<Rightarrow> error option) option \<Rightarrow> world
     \<Rightarrow> (error + unit) \<times> trainer \<times> world" where
  "train rt self n_epochs on_epoch_end w =
     epoch_loop rt on_epoch_end n_epochs [0..<nat n_epochs] self w"

subsection \<open>\<^verbatim>\<open>BCTrainer.save_policy\<close>\<close>

text \<open>
  \<^verbatim>\<open>os.path.dirname\<close> (POSIX): the path up to its last slash, without trailing slashes
  unless it consists of slashes only. \<^verbatim>\<open>os.makedirs(dirname, exist_ok=True)\<close> records the
  directory; writing the pickle replaces what the path held. Failures of the operating
  system (permissions, a file in the place of a directory) are outside the model.
\<close>

definition os_path_dirname :: "string \<Rightarrow> string" where
  "os_path_dirname p =
     (let head = rev (dropWhile (\<lambda>c. c \<noteq> CHR ''/'') (rev p))
      in if head \<noteq> [] \<and> filter (\<lambda>c. c \<noteq> CHR ''/'') head \<noteq> []
         then rev (dropWhile (\<lambda>c. c = CHR ''/'') (rev head))
         else head)"

definition save_policy :: "trainer \<Rightarrow> string \<Rightarrow> world \<Rightarrow> (error + unit) \<times> world" where
  "save_policy self policy_path w =
     (case sess_run_fetch (session_values w (sess self)) (policy_variables self) of
        Inl e \<Rightarrow> (Inl e, w)
      | Inr policy_params \<Rightarrow>
          (let data = \<lparr>saved_class = policy_class self, saved_kwargs = policy_kwargs self,
                       saved_params = policy_params\<rparr>;
               dirname = os_path_dirname policy_path;
               w1 = (if dirname \<noteq> [] then w\<lparr>directories := insert dirname (directories w)\<rparr> else w)
           in (Inr (), w1\<lparr>files := (files w1)(policy_path \<mapsto> data)\<rparr>)))"


subsection \<open>Properties of states\<close>

text \<open>
  \<open>scope_free g s\<close>: no variable of the graph has a name that starts with \<open>s\<close>, so
  that nothing was built under the variable scope \<open>s\<close> yet.
\<close>

definition scope_free :: "tf_var list \<Rightarrow> string \<Rightarrow> bool" where
  "scope_free g s = (filter (\<lambda>v. take (length s) (var_name v) = s) g = [])"

text \<open>
  \<open>policy_built self w\<close>: what \<^verbatim>\<open>__init__\<close> establishes and an optimiser step keeps. The
  variables the trainer recorded are the trainable ones its class declares for its
  keyword arguments, shape by shape and element type by element type; the declared
  names differ from one another; and the trainer's session holds, for each recorded
  variable, a value of the variable's shape and element type.
\<close>

definition policy_built :: "trainer \<Rightarrow> world \<Rightarrow> bool" where
  "policy_built self w =
     (distinct (map var_name (policy_class self (policy_kwargs self)))
      \<and> map var_shape (policy_variables self)
            = map var_shape (filter trainable (policy_class self (policy_kwargs self)))
      \<and> map var_dtype (policy_variables self)
            = map var_dtype (filter trainable (policy_class self (policy_kwargs self)))
      \<and> list_all (\<lambda>v. case session_values w (sess self) (var_name v) of
                         None \<Rightarrow> False
                       | Some x \<Rightarrow> shape x = var_shape v \<and> dtype x = var_dtype v)
            (policy_variables self))"

subsection \<open>A small instance\<close>

text \<open>
  A policy with one dense layer (a 2 by 2 weight matrix and a bias of length 2) on an
  environment with two observation dimensions and two discrete actions, four expert
  transitions, and a runtime whose optimiser step leaves the variables alone and reports
  the sum of the observations it was fed as the loss. The fresh world converts an
  element to an integer type by truncation and leaves an element on its way to a float
  type as it is, which is what NumPy does to the values used below (they are
  representable in either float format). \<open>step_counter\<close> is a variable of integers.
  \<open>small_trainer\<close> is the trainer built in the fresh world with these demonstrations
  and a batch size of 2, \<open>bare_trainer\<close> the one built without demonstrations.
\<close>

definition small_policy :: policy_class where
  "small_policy kwargs =
     [\<lparr>var_name = ''model/pi/w'', var_shape = [2, 2], var_dtype = Float32, trainable = True,
       initial_value = \<lparr>dtype = Float32, shape = [2, 2], elems = [1, 0, 0, 1]\<rparr>\<rparr>,
      \<lparr>var_name = ''model/pi/b'', var_shape = [2], var_dtype = Float32, trainable = True,
       initial_value = \<lparr>dtype = Float32, shape = [2], elems = [0, 0]\<rparr>\<rparr>]"

definition small_kwargs :: policy_kwargs where
  "small_kwargs = \<lparr>ob_space = Box [2], ac_space = Discrete 2, n_batch = None, n_env = 1, n_steps = 1000\<rparr>"

definition small_env :: gym_env where
  "small_env = \<lparr>observation_space = Box [2], action_space = Discrete 2\<rparr>"

definition small_demos :: transitions where
  "small_demos =
     [\<lparr>obs = [0, 0], act = [0], next_obs = [0, 1], rew = 0\<rparr>,
      \<lparr>obs = [0, 1], act = [1], next_obs = [1, 1], rew = 0\<rparr>,
      \<lparr>obs = [1, 1], act = [0], next_obs = [1, 0], rew = 1\<rparr>,
      \<lparr>obs = [1, 0], act = [1], next_obs = [0, 0], rew = 0\<rparr>]"

definition small_runtime :: tf_runtime where
  "small_runtime step feed st = (st, sum_list (concat (fed_obs feed)))"

definition small_cast :: "np_dtype \<Rightarrow> np_dtype \<Rightarrow> real \<Rightarrow> real" where
  "small_cast src dst x =
     (if dst = Int32 \<or> dst = Int64
      then (if 0 \<le> x then of_int \<lfloor>x\<rfloor> else of_int \<lceil>x\<rceil>)
      else x)"

definition step_counter :: tf_var where
  "step_counter =
     \<lparr>var_name = ''steps'', var_shape = [2], var_dtype = Int32, trainable = False,
      initial_value = \<lparr>dtype = Int32, shape = [2], elems = [0, 0]\<rparr>\<rparr>"

definition fresh_world :: world where
  "fresh_world =
     \<lparr>graph_variables = [], default_session = Some 0, session_values = (\<lambda>s. Map.empty),
      files = Map.empty, directories = {}, np_random = (\<lambda>k. k),
      np_cast = small_cast,
      train_runs = [], batch_postfix = [], epoch_postfix = []\<rparr>"

definition small_dataset :: dataset where
  "small_dataset = fst (make_expert_dataset small_demos fresh_world)"

definition small_trainer :: trainer where
  "small_trainer = projr (fst (BCTrainer_init small_env (Some small_demos) small_policy 2
                                  AdamOptimizer None None False fresh_world))"

definition small_world :: world where
  "small_world = snd (BCTrainer_init small_env (Some small_demos) small_policy 2
                         AdamOptimizer None None False fresh_world)"

definition bare_trainer :: trainer where
  "bare_trainer = projr (fst (BCTrainer_init small_env None small_policy 32
                                  AdamOptimizer None None False fresh_world))"

definition bare_world :: world where
  "bare_world = snd (BCTrainer_init small_env None small_policy 32
                         AdamOptimizer None None False fresh_world)"

text \<open>
  \<open>tuned_world\<close> is the world of \<open>small_trainer\<close> after its two variables were given
  other values; \<open>saved_world\<close> follows \<open>save_policy\<close> there and \<open>reloaded_world\<close> a first
  \<open>reconstruct_policy\<close>. \<open>short_record\<close> is a record of the same class with one array
  only.
\<close>

definition tuned_world :: world where
  "tuned_world =
     snd (set_tf_vars [\<lparr>dtype = Float32, shape = [2, 2], elems = [5, 6, 7, 8]\<rparr>, \<lparr>dtype = Float32, shape = [2], elems = [9, 10]\<rparr>]
            (Some ''bc_supervised_loss/model'') None None small_world)"

definition saved_world :: world where
  "saved_world = snd (save_policy small_trainer ''out/policy.pkl'' tuned_world)"

definition reloaded_world :: world where
  "reloaded_world = snd (reconstruct_policy ''out/policy.pkl'' None saved_world)"



section \<open>Parameter transfer\<close>

lemma run_assign_ops_fed:
  "length xs = length ops \<Longrightarrow> \<forall>i<length ops. fd (snd (ops ! i)) = Some (xs ! i) \<Longrightarrow>
   run_assign_ops ops fd st = (Inr (), st(map (\<lambda>p. var_name (fst p)) ops [\<mapsto>] xs))"
proof (induction ops arbitrary: xs st)
  case Nil
  then show ?case by simp
next
  case (Cons p ops)
  obtain v ph where p: "p = (v, ph)" by (cases p)
  from Cons.prems(1) obtain x xs' where xs: "xs = x # xs'" by (cases xs) auto
  from Cons.prems(2) have h0: "fd ph = Some x" using p xs by auto
  have hs: "\<forall>i<length ops. fd (snd (ops ! i)) = Some (xs' ! i)"
  proof (intro allI impI)
    fix i assume "i < length ops"
    then have "Suc i < length (p # ops)" by simp
    with Cons.prems(2) have "fd (snd ((p # ops) ! Suc i)) = Some (xs ! Suc i)" by blast
    then show "fd (snd (ops ! i)) = Some (xs' ! i)" using xs by simp
  qed
  have len: "length xs' = length ops" using Cons.prems(1) xs by simp
  have "run_assign_ops (p # ops) fd st = run_assign_ops ops fd (st(var_name v \<mapsto> x))"
    using p h0 by simp
  also have "\<dots> = (Inr (), (st(var_name v \<mapsto> x))(map (\<lambda>p. var_name (fst p)) ops [\<mapsto>] xs'))"
    by (rule Cons.IH[OF len hs])
  finally show ?case using p xs by (simp del: fun_upd_apply)
qed

lemma map_upds_nth:
  "distinct ns \<Longrightarrow> length xs = length ns \<Longrightarrow> i < length ns \<Longrightarrow>
   (st(ns [\<mapsto>] xs)) (ns ! i) = Some (xs ! i)"
proof (induction ns arbitrary: xs st i)
  case Nil
  then show ?case by simp
next
  case (Cons n ns)
  then obtain x xs' where xs: "xs = x # xs'" by (cases xs) auto
  show ?case
  proof (cases i)
    case 0
    then show ?thesis using Cons.prems(1) xs by (simp add: map_upds_apply_nontin)
  next
    case (Suc j)
    have "(st(n \<mapsto> x, ns [\<mapsto>] xs')) (ns ! j) = Some (xs' ! j)"
      by (rule Cons.IH) (use Cons.prems xs Suc in auto)
    then show ?thesis using Suc xs by (simp del: fun_upd_apply)
  qed
qed

lemma distinct_placeholders:
  "distinct (map (\<lambda>(i, v). \<lparr>ph_id = i, ph_shape = var_shape v, ph_dtype = var_dtype v\<rparr>) (zip [0..<length vs] vs))"
proof -
  let ?phs = "map (\<lambda>(i, v). \<lparr>ph_id = i, ph_shape = var_shape v, ph_dtype = var_dtype v\<rparr>) (zip [0..<length vs] vs)"
  have "map ph_id ?phs = [0..<length vs]"
    by (rule nth_equalityI) simp_all
  then have "distinct (map ph_id ?phs)" by simp
  then show ?thesis by (rule distinct_map[THEN iffD1, THEN conjunct1])
qed

lemma shape_astype: "shape (astype cast dt x) = shape x"
  by (simp add: astype_def)

lemma astype_same: "dtype x = dt \<Longrightarrow> astype cast dt x = x"
  by (simp add: astype_def)

lemma sess_run_assign_all:
  assumes len: "length values = length vs"
      and shp: "\<forall>i<length vs. shape (values ! i) = var_shape (vs ! i)"
  shows "sess_run_assign s
           (zip vs (map (\<lambda>(i, v). \<lparr>ph_id = i, ph_shape = var_shape v, ph_dtype = var_dtype v\<rparr>) (zip [0..<length vs] vs)))
           (zip (map (\<lambda>(i, v). \<lparr>ph_id = i, ph_shape = var_shape v, ph_dtype = var_dtype v\<rparr>) (zip [0..<length vs] vs)) values) w
         = (Inr (), w\<lparr>session_values := (session_values w)
              (s := (session_values w s)
                 (map var_name vs [\<mapsto>]
                    map (\<lambda>(v, x). astype (np_cast w) (var_dtype v) x) (zip vs values)))\<rparr>)"
proof -
  let ?phs = "map (\<lambda>(i, v). \<lparr>ph_id = i, ph_shape = var_shape v, ph_dtype = var_dtype v\<rparr>) (zip [0..<length vs] vs)"
  let ?cvs = "map (\<lambda>(v, x). astype (np_cast w) (var_dtype v) x) (zip vs values)"
  have lp: "length ?phs = length vs" by simp
  have lc: "length ?cvs = length vs" using len by simp
  have nf: "map (\<lambda>(ph, x). (ph, astype (np_cast w) (ph_dtype ph) x)) (zip ?phs values) = zip ?phs ?cvs"
    by (rule nth_equalityI) (use len in simp_all)
  have ok: "\<not> list_ex (\<lambda>(ph, x). shape x \<noteq> ph_shape ph) (zip ?phs ?cvs)"
  proof
    assume "list_ex (\<lambda>(ph, x). shape x \<noteq> ph_shape ph) (zip ?phs ?cvs)"
    then obtain ph x where m: "(ph, x) \<in> set (zip ?phs ?cvs)" and ne: "shape x \<noteq> ph_shape ph"
      by (auto simp: list_ex_iff)
    from m obtain i where i: "i < length (zip ?phs ?cvs)" and e: "zip ?phs ?cvs ! i = (ph, x)"
      by (auto simp: in_set_conv_nth)
    from i have il: "i < length vs" using len by simp
    from e il len have "ph = \<lparr>ph_id = i, ph_shape = var_shape (vs ! i), ph_dtype = var_dtype (vs ! i)\<rparr>"
      and "x = astype (np_cast w) (var_dtype (vs ! i)) (values ! i)"
      by simp_all
    with shp il ne show False by (simp add: shape_astype)
  qed
  have fed: "\<forall>i<length (zip vs ?phs). map_of (zip ?phs ?cvs) (snd (zip vs ?phs ! i)) = Some (?cvs ! i)"
  proof (intro allI impI)
    fix i assume "i < length (zip vs ?phs)"
    then have il: "i < length vs" by simp
    have "map_of (zip ?phs ?cvs) (?phs ! i) = Some (?cvs ! i)"
      by (rule map_of_zip_nth) (use lp lc il distinct_placeholders in auto)
    then show "map_of (zip ?phs ?cvs) (snd (zip vs ?phs ! i)) = Some (?cvs ! i)"
      using il by simp
  qed
  have nm: "map (\<lambda>p. var_name (fst p)) (zip vs ?phs) = map var_name vs"
    by (rule nth_equalityI) simp_all
  have "run_assign_ops (zip vs ?phs) (map_of (zip ?phs ?cvs)) (session_values w s)
          = (Inr (), (session_values w s)(map (\<lambda>p. var_name (fst p)) (zip vs ?phs) [\<mapsto>] ?cvs))"
    by (rule run_assign_ops_fed) (use lc fed in auto)
  then have "run_assign_ops (zip vs ?phs) (map_of (zip ?phs ?cvs)) (session_values w s)
          = (Inr (), (session_values w s)(map var_name vs [\<mapsto>] ?cvs))"
    using nm by simp
  then show ?thesis using ok unfolding sess_run_assign_def Let_def nf by simp
qed

lemma converted_same:
  assumes "length values = length vs"
      and "\<forall>i<length vs. dtype (values ! i) = var_dtype (vs ! i)"
  shows "map (\<lambda>(v, x). astype cast (var_dtype v) x) (zip vs values) = values"
  by (rule nth_equalityI) (use assms in \<open>simp_all add: astype_same\<close>)

lemma set_tf_vars_run:
  assumes dest: "(scope = Some sc \<and> tf_vars = None \<and> vs = get_collection (graph_variables w) sc)
           \<or> (scope = None \<and> tf_vars = Some vs)"
      and len: "length values = length vs"
      and ses: "(case ss of Some s' \<Rightarrow> Some s' | None \<Rightarrow> default_session w) = Some s"
      and shp: "\<forall>i<length vs. shape (values ! i) = var_shape (vs ! i)"
  shows "set_tf_vars values scope tf_vars ss w
           = (Inr (), w\<lparr>session_values :=
                (session_values w)(s := (session_values w s)
                   (map var_name vs [\<mapsto>]
                      map (\<lambda>(v, x). astype (np_cast w) (var_dtype v) x) (zip vs values)))\<rparr>)"
  using dest len ses sess_run_assign_all[OF len shp, of s w]
  unfolding set_tf_vars_def by (auto simp: Let_def)

text \<open>
  C8. When the number of values differs from the number of destination variables (those
  of the scope's collection, or those of the explicit list), \<open>set_tf_vars\<close> raises the
  count assertion and leaves the world, hence every variable of every session, as it
  was; neither the contents of the arrays nor the session matter.
\<close>

theorem set_tf_vars_count_mismatch:
  assumes "(scope = Some sc \<and> tf_vars = None \<and> vs = get_collection (graph_variables w) sc)
           \<or> (scope = None \<and> tf_vars = Some vs)"
      and "length values \<noteq> length vs"
  shows "set_tf_vars values scope tf_vars ss w
           = (Inl (AssertionError (CountMismatch (length vs) (length values))), w)"
  using assms unfolding set_tf_vars_def by auto

theorem set_tf_vars_count_mismatch_witness:
  "set_tf_vars [\<lparr>dtype = Float32, shape = [2], elems = [1, 2]\<rparr>, \<lparr>dtype = Float32, shape = [2], elems = [3, 4]\<rparr>,
                \<lparr>dtype = Float32, shape = [2], elems = [5, 6]\<rparr>]
               None (Some (small_policy small_kwargs @ small_policy small_kwargs)) None fresh_world
     = (Inl (AssertionError (CountMismatch 4 3)), fresh_world)"
  using set_tf_vars_count_mismatch
          [of None undefined "Some (small_policy small_kwargs @ small_policy small_kwargs)"
              "small_policy small_kwargs @ small_policy small_kwargs" fresh_world
              "[\<lparr>dtype = Float32, shape = [2], elems = [1, 2]\<rparr>, \<lparr>dtype = Float32, shape = [2], elems = [3, 4]\<rparr>,
                \<lparr>dtype = Float32, shape = [2], elems = [5, 6]\<rparr>]" None]
  by (simp add: small_policy_def)

text \<open>
  C2, as the code has it. With as many values as destination variables, a session at
  hand, each value of its variable's shape and element type and the variables
  distinct, \<open>set_tf_vars\<close> succeeds; afterwards variable \<open>i\<close> holds value \<open>i\<close> in that
  session, every other variable of that session holds what it held, and nothing else
  in the world has changed.
\<close>

theorem set_tf_vars_assigns:
  assumes dest: "(scope = Some sc \<and> tf_vars = None \<and> vs = get_collection (graph_variables w) sc)
           \<or> (scope = None \<and> tf_vars = Some vs)"
      and len: "length values = length vs"
      and ses: "(case ss of Some s' \<Rightarrow> Some s' | None \<Rightarrow> default_session w) = Some s"
      and shp: "\<forall>i<length vs. shape (values ! i) = var_shape (vs ! i)"
      and dty: "\<forall>i<length vs. dtype (values ! i) = var_dtype (vs ! i)"
      and dis: "distinct (map var_name vs)"
  shows "\<exists>st'. set_tf_vars values scope tf_vars ss w
                 = (Inr (), w\<lparr>session_values := (session_values w)(s := st')\<rparr>)
             \<and> (\<forall>i<length vs. st' (var_name (vs ! i)) = Some (values ! i))
             \<and> (\<forall>n. n \<notin> set (map var_name vs) \<longrightarrow> st' n = session_values w s n)"
proof -
  let ?st = "(session_values w s)(map var_name vs [\<mapsto>] values)"
  have same: "map (\<lambda>(v, x). astype (np_cast w) (var_dtype v) x) (zip vs values) = values"
    by (rule converted_same[OF len dty])
  have run: "set_tf_vars values scope tf_vars ss w
               = (Inr (), w\<lparr>session_values := (session_values w)(s := ?st)\<rparr>)"
    using set_tf_vars_run[OF dest len ses shp] unfolding same .
  have hit: "\<forall>i<length vs. ?st (var_name (vs ! i)) = Some (values ! i)"
  proof (intro allI impI)
    fix i assume il: "i < length vs"
    have "?st (map var_name vs ! i) = Some (values ! i)"
      by (rule map_upds_nth) (use dis len il in auto)
    then show "?st (var_name (vs ! i)) = Some (values ! i)" using il by simp
  qed
  have miss: "\<forall>n. n \<notin> set (map var_name vs) \<longrightarrow> ?st n = session_values w s n"
    by (simp add: map_upds_apply_nontin)
  from run hit miss show ?thesis by blast
qed

text \<open>
  In the world that holds both the trainer's policy and a reconstructed one, new values
  for the trainer's two variables: they are held afterwards, and the weight of the
  reconstructed policy still holds what it held.
\<close>

theorem set_tf_vars_assigns_witness:
  "session_values reloaded_world 0 ''reconstructed_policy/model/pi/w''
     = Some \<lparr>dtype = Float32, shape = [2, 2], elems = [5, 6, 7, 8]\<rparr>
   \<and> (\<exists>st'. set_tf_vars [\<lparr>dtype = Float32, shape = [2, 2], elems = [1, 2, 3, 4]\<rparr>,
                         \<lparr>dtype = Float32, shape = [2], elems = [11, 12]\<rparr>]
                 (Some ''bc_supervised_loss/model'') None None reloaded_world
            = (Inr (), reloaded_world\<lparr>session_values := (session_values reloaded_world)(0 := st')\<rparr>)
        \<and> st' ''bc_supervised_loss/model/model/pi/w''
             = Some \<lparr>dtype = Float32, shape = [2, 2], elems = [1, 2, 3, 4]\<rparr>
        \<and> st' ''bc_supervised_loss/model/model/pi/b''
             = Some \<lparr>dtype = Float32, shape = [2], elems = [11, 12]\<rparr>
        \<and> st' ''reconstructed_policy/model/pi/w''
             = Some \<lparr>dtype = Float32, shape = [2, 2], elems = [5, 6, 7, 8]\<rparr>)"
proof -
  let ?vs = "get_collection (graph_variables reloaded_world) ''bc_supervised_loss/model''"
  let ?xs = "[\<lparr>dtype = Float32, shape = [2, 2], elems = [1, 2, 3, 4]\<rparr>,
              \<lparr>dtype = Float32, shape = [2], elems = [11, 12]\<rparr>]"
  have vs: "?vs = [\<lparr>var_name = ''bc_supervised_loss/model/model/pi/w'', var_shape = [2, 2], var_dtype = Float32,
                    trainable = True, initial_value = \<lparr>dtype = Float32, shape = [2, 2], elems = [1, 0, 0, 1]\<rparr>\<rparr>,
                   \<lparr>var_name = ''bc_supervised_loss/model/model/pi/b'', var_shape = [2], var_dtype = Float32,
                    trainable = True, initial_value = \<lparr>dtype = Float32, shape = [2], elems = [0, 0]\<rparr>\<rparr>]"
    by code_simp
  have held: "session_values reloaded_world 0 ''reconstructed_policy/model/pi/w''
                = Some \<lparr>dtype = Float32, shape = [2, 2], elems = [5, 6, 7, 8]\<rparr>"
    by code_simp
  have ses: "(case None of Some s' \<Rightarrow> Some s' | None \<Rightarrow> default_session reloaded_world) = Some 0"
    by code_simp
  have shp: "\<forall>i<length ?vs. shape (?xs ! i) = var_shape (?vs ! i)"
    unfolding vs by (simp add: less_Suc_eq)
  have dty: "\<forall>i<length ?vs. dtype (?xs ! i) = var_dtype (?vs ! i)"
    unfolding vs by (simp add: less_Suc_eq)
  have dis: "distinct (map var_name ?vs)" unfolding vs by simp
  have len: "length ?xs = length ?vs" unfolding vs by simp
  have dest: "(Some ''bc_supervised_loss/model'' = Some ''bc_supervised_loss/model''
                \<and> (None :: tf_var list option) = None
                \<and> ?vs = get_collection (graph_variables reloaded_world) ''bc_supervised_loss/model'')
               \<or> (Some ''bc_supervised_loss/model'' = None \<and> None = Some ?vs)"
    by simp
  from set_tf_vars_assigns[OF dest len ses shp dty dis]
  obtain st' where
    r: "set_tf_vars ?xs (Some ''bc_supervised_loss/model'') None None reloaded_world
          = (Inr (), reloaded_world\<lparr>session_values := (session_values reloaded_world)(0 := st')\<rparr>)"
    and h: "\<forall>i<length ?vs. st' (var_name (?vs ! i)) = Some (?xs ! i)"
    and m: "\<forall>n. n \<notin> set (map var_name ?vs) \<longrightarrow> st' n = session_values reloaded_world 0 n"
    by auto
  from h[unfolded vs]
  have "st' ''bc_supervised_loss/model/model/pi/w''
          = Some \<lparr>dtype = Float32, shape = [2, 2], elems = [1, 2, 3, 4]\<rparr>"
    "st' ''bc_supervised_loss/model/model/pi/b'' = Some \<lparr>dtype = Float32, shape = [2], elems = [11, 12]\<rparr>"
    by (auto simp: less_Suc_eq)
  moreover from m[unfolded vs]
  have "st' ''reconstructed_policy/model/pi/w''
          = session_values reloaded_world 0 ''reconstructed_policy/model/pi/w''"
    by simp
  ultimately show ?thesis using r held by auto
qed

text \<open>
  Equal counts are not enough. Without a session, supplied or active, the call raises
  the session assertion. An array of shape \<open>[4]\<close> for the variable of shape \<open>[2, 2]\<close> is
  refused. When the bias is listed twice the call returns normally, but the bias
  cannot hold both arrays. A \<^verbatim>\<open>float64\<close> array for the \<^verbatim>\<open>float32\<close> bias is held as a
  \<^verbatim>\<open>float32\<close> array, and a \<^verbatim>\<open>float64\<close> array for an \<^verbatim>\<open>int32\<close> variable is held
  truncated: neither variable holds the array it was given.
\<close>

theorem set_tf_vars_unmet_preconditions:
  "set_tf_vars [\<lparr>dtype = Float32, shape = [2, 2], elems = [5, 6, 7, 8]\<rparr>,
                \<lparr>dtype = Float32, shape = [2], elems = [9, 10]\<rparr>]
       None (Some (small_policy small_kwargs)) None (fresh_world\<lparr>default_session := None\<rparr>)
     = (Inl (AssertionError SessionOrContext), fresh_world\<lparr>default_session := None\<rparr>)
   \<and> set_tf_vars [\<lparr>dtype = Float32, shape = [4], elems = [5, 6, 7, 8]\<rparr>,
                  \<lparr>dtype = Float32, shape = [2], elems = [9, 10]\<rparr>]
       None (Some (small_policy small_kwargs)) None fresh_world
     = (Inl ValueError, fresh_world)
   \<and> fst (set_tf_vars [\<lparr>dtype = Float32, shape = [2], elems = [1, 2]\<rparr>,
                       \<lparr>dtype = Float32, shape = [2], elems = [9, 10]\<rparr>]
            None (Some [small_policy small_kwargs ! 1, small_policy small_kwargs ! 1]) None fresh_world)
       = Inr ()
   \<and> \<not> (session_values
            (snd (set_tf_vars [\<lparr>dtype = Float32, shape = [2], elems = [1, 2]\<rparr>,
                               \<lparr>dtype = Float32, shape = [2], elems = [9, 10]\<rparr>]
                    None (Some [small_policy small_kwargs ! 1, small_policy small_kwargs ! 1]) None
                    fresh_world)) 0 ''model/pi/b''
          = Some \<lparr>dtype = Float32, shape = [2], elems = [1, 2]\<rparr>
        \<and> session_values
            (snd (set_tf_vars [\<lparr>dtype = Float32, shape = [2], elems = [1, 2]\<rparr>,
                               \<lparr>dtype = Float32, shape = [2], elems = [9, 10]\<rparr>]
                    None (Some [small_policy small_kwargs ! 1, small_policy small_kwargs ! 1]) None
                    fresh_world)) 0 ''model/pi/b''
          = Some \<lparr>dtype = Float32, shape = [2], elems = [9, 10]\<rparr>)
   \<and> session_values
         (snd (set_tf_vars [\<lparr>dtype = Float64, shape = [2], elems = [3 / 2, 5 / 2]\<rparr>]
                 None (Some [small_policy small_kwargs ! 1]) None fresh_world)) 0 ''model/pi/b''
       = Some \<lparr>dtype = Float32, shape = [2], elems = [3 / 2, 5 / 2]\<rparr>
   \<and> session_values
         (snd (set_tf_vars [\<lparr>dtype = Float64, shape = [2], elems = [3 / 2, 5 / 2]\<rparr>]
                 None (Some [step_counter]) None fresh_world)) 0 ''steps''
       = Some \<lparr>dtype = Int32, shape = [2], elems = [1, 2]\<rparr>"
proof (intro conjI)
  show "set_tf_vars [\<lparr>dtype = Float32, shape = [2, 2], elems = [5, 6, 7, 8]\<rparr>,
                \<lparr>dtype = Float32, shape = [2], elems = [9, 10]\<rparr>]
       None (Some (small_policy small_kwargs)) None (fresh_world\<lparr>default_session := None\<rparr>)
     = (Inl (AssertionError SessionOrContext), fresh_world\<lparr>default_session := None\<rparr>)"
    by (simp add: set_tf_vars_def small_policy_def fresh_world_def)
  show "set_tf_vars [\<lparr>dtype = Float32, shape = [4], elems = [5, 6, 7, 8]\<rparr>,
                  \<lparr>dtype = Float32, shape = [2], elems = [9, 10]\<rparr>]
       None (Some (small_policy small_kwargs)) None fresh_world
     = (Inl ValueError, fresh_world)"
    by (simp add: set_tf_vars_def sess_run_assign_def astype_def small_policy_def fresh_world_def Let_def)
  show "fst (set_tf_vars [\<lparr>dtype = Float32, shape = [2], elems = [1, 2]\<rparr>,
                       \<lparr>dtype = Float32, shape = [2], elems = [9, 10]\<rparr>]
            None (Some [small_policy small_kwargs ! 1, small_policy small_kwargs ! 1]) None fresh_world)
       = Inr ()"
    by code_simp
  show "\<not> (session_values
            (snd (set_tf_vars [\<lparr>dtype = Float32, shape = [2], elems = [1, 2]\<rparr>,
                               \<lparr>dtype = Float32, shape = [2], elems = [9, 10]\<rparr>]
                    None (Some [small_policy small_kwargs ! 1, small_policy small_kwargs ! 1]) None
                    fresh_world)) 0 ''model/pi/b''
          = Some \<lparr>dtype = Float32, shape = [2], elems = [1, 2]\<rparr>
        \<and> session_values
            (snd (set_tf_vars [\<lparr>dtype = Float32, shape = [2], elems = [1, 2]\<rparr>,
                               \<lparr>dtype = Float32, shape = [2], elems = [9, 10]\<rparr>]
                    None (Some [small_policy small_kwargs ! 1, small_policy small_kwargs ! 1]) None
                    fresh_world)) 0 ''model/pi/b''
          = Some \<lparr>dtype = Float32, shape = [2], elems = [9, 10]\<rparr>)"
    by code_simp
  show "session_values
         (snd (set_tf_vars [\<lparr>dtype = Float64, shape = [2], elems = [3 / 2, 5 / 2]\<rparr>]
                 None (Some [small_policy small_kwargs ! 1]) None fresh_world)) 0 ''model/pi/b''
       = Some \<lparr>dtype = Float32, shape = [2], elems = [3 / 2, 5 / 2]\<rparr>"
    by code_simp
  show "session_values
         (snd (set_tf_vars [\<lparr>dtype = Float64, shape = [2], elems = [3 / 2, 5 / 2]\<rparr>]
                 None (Some [step_counter]) None fresh_world)) 0 ''steps''
       = Some \<lparr>dtype = Int32, shape = [2], elems = [1, 2]\<rparr>"
    by code_simp
qed

section \<open>The batch iterator\<close>

lemma length_shuffle_from: "length (shuffle_from i r xs) = length xs"
  by (induction i arbitrary: r xs) (simp_all add: Let_def)

lemma shuffle_dataset_fields:
  "shuffle_dataset ds w = (ds', w') \<Longrightarrow>
     n_samples ds' = n_samples ds \<and> next_id ds' = next_id ds
     \<and> length (data_obs ds') = n_samples ds \<and> length (data_act ds') = n_samples ds"
  by (auto simp: shuffle_dataset_def np_random_shuffle_def length_shuffle_from)

lemma shuffle_dataset_world:
  "shuffle_dataset ds w = (ds', w') \<Longrightarrow>
     w' = w\<lparr>np_random := np_random w'\<rparr>"
  by (auto simp: shuffle_dataset_def np_random_shuffle_def)

lemma iterate_batches_none:
  "n_samples ds < next_id ds + b \<Longrightarrow> iterate_batches b ds w = ([], ds, w)"
  by (simp add: iterate_batches.simps)

lemma iterate_once_none:
  assumes "n_samples ds < b"
  shows "\<exists>ds' w'. iterate_once b ds w = ([], ds', w') \<and> n_samples ds' = n_samples ds
           \<and> next_id ds' = 0 \<and> w' = w\<lparr>np_random := np_random w'\<rparr>"
proof -
  obtain ds0 w0 where s: "shuffle_dataset ds w = (ds0, w0)" by (cases "shuffle_dataset ds w")
  from shuffle_dataset_fields[OF s] assms have "n_samples ds0 < next_id ds0 + b" by simp
  then have "iterate_batches b ds0 w0 = ([], ds0, w0)" by (rule iterate_batches_none)
  with s shuffle_dataset_fields[OF s] shuffle_dataset_world[OF s] show ?thesis
    by (simp add: iterate_once_def)
qed

lemma iterate_batches_full:
  assumes "0 < b" "length (data_obs ds) = n_samples ds" "length (data_act ds) = n_samples ds"
      and "next_id ds \<le> n_samples ds"
  shows "\<exists>bs ds'. iterate_batches b ds w = (bs, ds', w)
           \<and> length bs = (n_samples ds - next_id ds) div b
           \<and> list_all (\<lambda>x. length (batch_obs x) = b \<and> length (batch_act x) = b) bs
           \<and> n_samples ds' = n_samples ds"
  using assms
proof (induction b ds w rule: iterate_batches.induct)
  case (1 b ds w)
  show ?case
  proof (cases "next_id ds + b \<le> n_samples ds")
    case False
    then have "iterate_batches b ds w = ([], ds, w)" by (simp add: iterate_batches.simps)
    moreover from False "1.prems"(1) have "n_samples ds - next_id ds < b" by arith
    then have "(n_samples ds - next_id ds) div b = 0" by (rule div_less)
    ultimately show ?thesis by simp
  next
    case True
    let ?x = "\<lparr>batch_obs = take b (drop (next_id ds) (data_obs ds)),
               batch_act = take b (drop (next_id ds) (data_act ds))\<rparr>"
    let ?ds1 = "ds\<lparr>next_id := next_id ds + b\<rparr>"
    from True "1.prems" have lt: "\<not> n_samples ds \<le> next_id ds" by simp
    from True have mn: "min b (n_samples ds - next_id ds) = b" by simp
    have nb: "next_batch b ds w = (?x, ?ds1, w)"
      using lt mn by (simp add: next_batch_def Let_def)
    have c: "0 < b \<and> next_id ds + b \<le> n_samples ds" using True "1.prems" by simp
    have "\<exists>bs ds'. iterate_batches b ?ds1 w = (bs, ds', w)
           \<and> length bs = (n_samples ?ds1 - next_id ?ds1) div b
           \<and> list_all (\<lambda>x. length (batch_obs x) = b \<and> length (batch_act x) = b) bs
           \<and> n_samples ds' = n_samples ?ds1"
      by (rule "1.IH"[OF c nb[symmetric] refl]) (use "1.prems" True in simp_all)
    then obtain bs ds' where r: "iterate_batches b ?ds1 w = (bs, ds', w)"
      and lb: "length bs = (n_samples ds - (next_id ds + b)) div b"
      and al: "list_all (\<lambda>x. length (batch_obs x) = b \<and> length (batch_act x) = b) bs"
      and ns: "n_samples ds' = n_samples ds" by auto
    have it: "iterate_batches b ds w = (?x # bs, ds', w)"
      using c nb r by (subst iterate_batches.simps) simp
    have sz: "length (batch_obs ?x) = b \<and> length (batch_act ?x) = b"
      using True "1.prems" by simp
    have "(n_samples ds - next_id ds) div b = Suc ((n_samples ds - (next_id ds + b)) div b)"
    proof -
      have "n_samples ds - next_id ds = (n_samples ds - (next_id ds + b)) + b" using True by simp
      then show ?thesis using "1.prems"(1) by (metis div_add_self2 Suc_eq_plus1 less_numeral_extra(3))
    qed
    with it lb al ns sz show ?thesis by simp
  qed
qed

lemma iterate_once_full:
  assumes "0 < b" "next_id ds = 0"
  shows "\<exists>bs ds' w'. iterate_once b ds w = (bs, ds', w')
           \<and> length bs = n_samples ds div b
           \<and> list_all (\<lambda>x. length (batch_obs x) = b \<and> length (batch_act x) = b) bs
           \<and> n_samples ds' = n_samples ds \<and> next_id ds' = 0
           \<and> w' = w\<lparr>np_random := np_random w'\<rparr>"
proof -
  obtain ds0 w0 where s: "shuffle_dataset ds w = (ds0, w0)" by (cases "shuffle_dataset ds w")
  note f = shuffle_dataset_fields[OF s]
  have "\<exists>bs ds'. iterate_batches b ds0 w0 = (bs, ds', w0)
           \<and> length bs = (n_samples ds0 - next_id ds0) div b
           \<and> list_all (\<lambda>x. length (batch_obs x) = b \<and> length (batch_act x) = b) bs
           \<and> n_samples ds' = n_samples ds0"
    by (rule iterate_batches_full) (use assms f in simp_all)
  then obtain bs ds' where "iterate_batches b ds0 w0 = (bs, ds', w0)"
     "length bs = (n_samples ds0 - next_id ds0) div b"
     "list_all (\<lambda>x. length (batch_obs x) = b \<and> length (batch_act x) = b) bs"
     "n_samples ds' = n_samples ds0" by blast
  with s f assms shuffle_dataset_world[OF s] show ?thesis
    by (simp add: iterate_once_def)
qed

section \<open>Training\<close>

lemma batch_loop_trace:
  "\<exists>ls w'. batch_loop rt self bs e w
              = ((case e of
                    None \<Rightarrow> (case ls of [] \<Rightarrow> None
                              | l # r \<Rightarrow> Some (foldl (\<lambda>a l. 0.9 * a + 0.1 * l) l r))
                  | Some x \<Rightarrow> Some (foldl (\<lambda>a l. 0.9 * a + 0.1 * l) x ls)), w')
         \<and> length ls = length bs
         \<and> batch_postfix w' = batch_postfix w @ ls
         \<and> train_runs w' = train_runs w @ map (\<lambda>b. \<lparr>fed_acts = batch_act b, fed_obs = batch_obs b\<rparr>) bs
         \<and> epoch_postfix w' = epoch_postfix w"
proof (induction bs arbitrary: e w)
  case Nil
  show ?case by (cases e) simp_all
next
  case (Cons b bs)
  let ?feed = "\<lparr>fed_acts = batch_act b, fed_obs = batch_obs b\<rparr>"
  obtain st' loss where r: "rt (train_op self) ?feed (session_values w (sess self)) = (st', loss)"
    by (cases "rt (train_op self) ?feed (session_values w (sess self))")
  let ?e = "Some (case e of None \<Rightarrow> loss | Some x \<Rightarrow> 0.9 * x + 0.1 * loss)"
  let ?w = "w\<lparr>session_values := (session_values w)(sess self := st'),
              train_runs := train_runs w @ [?feed],
              batch_postfix := batch_postfix w @ [loss]\<rparr>"
  have step: "batch_loop rt self (b # bs) e w = batch_loop rt self bs ?e ?w"
    using r by (simp add: Let_def)
  from Cons.IH[of ?e ?w] obtain ls w' where
    h: "batch_loop rt self bs ?e ?w
          = (Some (foldl (\<lambda>a l. 0.9 * a + 0.1 * l) (case e of None \<Rightarrow> loss | Some x \<Rightarrow> 0.9 * x + 0.1 * loss) ls), w')"
       "length ls = length bs" "batch_postfix w' = batch_postfix ?w @ ls"
       "train_runs w' = train_runs ?w @ map (\<lambda>b. \<lparr>fed_acts = batch_act b, fed_obs = batch_obs b\<rparr>) bs"
       "epoch_postfix w' = epoch_postfix ?w"
    by auto
  show ?case
    apply (rule exI[of _ "loss # ls"])
    apply (rule exI[of _ w'])
    using step h by (cases e) simp_all
qed

lemma train_epoch_full:
  assumes d: "expert_dataset self = Some ds" and z: "next_id ds = 0"
      and p: "0 < batch_size self" and le: "batch_size self \<le> n_samples ds"
      and cb: "\<forall>f l. on_epoch_end = Some f \<longrightarrow> f l = None"
  shows "\<exists>self' w' ds' new. train_epoch rt on_epoch_end n e self w = (Inr (), self', w')
           \<and> expert_dataset self' = Some ds' \<and> n_samples ds' = n_samples ds \<and> next_id ds' = 0
           \<and> batch_size self' = batch_size self
           \<and> train_runs w' = train_runs w @ new
           \<and> length new = n_samples ds div batch_size self
           \<and> list_all (\<lambda>fd. length (fed_obs fd) = batch_size self
                             \<and> length (fed_acts fd) = batch_size self) new"
proof -
  from iterate_once_full[OF p z, of w] obtain bs ds' w1 where
    it: "iterate_once (batch_size self) ds w = (bs, ds', w1)"
    and lb: "length bs = n_samples ds div batch_size self"
    and al: "list_all (\<lambda>x. length (batch_obs x) = batch_size self \<and> length (batch_act x) = batch_size self) bs"
    and ns: "n_samples ds' = n_samples ds" and ni: "next_id ds' = 0"
    and w1: "w1 = w\<lparr>np_random := np_random w1\<rparr>" by blast
  let ?self = "self\<lparr>expert_dataset := Some ds'\<rparr>"
  from batch_loop_trace[of rt ?self bs None w1] obtain ls w2 where
    bl: "batch_loop rt ?self bs None w1
           = ((case ls of [] \<Rightarrow> None | l # r \<Rightarrow> Some (foldl (\<lambda>a l. 0.9 * a + 0.1 * l) l r)), w2)"
    and ll: "length ls = length bs"
    and tr: "train_runs w2 = train_runs w1 @ map (\<lambda>b. \<lparr>fed_acts = batch_act b, fed_obs = batch_obs b\<rparr>) bs"
    by auto
  have "1 \<le> n_samples ds div batch_size self" using p le by (simp add: Suc_le_eq div_greater_zero_iff)
  with lb ll obtain l r where ls: "ls = l # r" by (cases ls) auto
  have t1: "train_runs w1 = train_runs w" by (subst w1) simp
  let ?new = "map (\<lambda>b. \<lparr>fed_acts = batch_act b, fed_obs = batch_obs b\<rparr>) bs"
  have an: "list_all (\<lambda>fd. length (fed_obs fd) = batch_size self
                             \<and> length (fed_acts fd) = batch_size self) ?new"
    using al by (simp add: list_all_iff)
  let ?w3 = "w2\<lparr>epoch_postfix := epoch_postfix w2 @ [foldl (\<lambda>a l. 0.9 * a + 0.1 * l) l r]\<rparr>"
  have "train_epoch rt on_epoch_end n e self w = (Inr (), ?self, ?w3)"
    using d p it bl ls cb by (auto simp: train_epoch_def Let_def split: option.splits)
  moreover have "train_runs ?w3 = train_runs w @ ?new" using tr t1 by simp
  ultimately show ?thesis using ns ni lb an by auto
qed

lemma epoch_loop_full:
  assumes d: "expert_dataset self = Some ds" and z: "next_id ds = 0"
      and p: "0 < batch_size self" and le: "batch_size self \<le> n_samples ds"
      and cb: "\<forall>f l. on_epoch_end = Some f \<longrightarrow> f l = None"
  shows "\<exists>self' w' ds' new. epoch_loop rt on_epoch_end n es self w = (Inr (), self', w')
           \<and> expert_dataset self' = Some ds' \<and> n_samples ds' = n_samples ds \<and> next_id ds' = 0
           \<and> batch_size self' = batch_size self
           \<and> train_runs w' = train_runs w @ new
           \<and> length new = length es * (n_samples ds div batch_size self)
           \<and> list_all (\<lambda>fd. length (fed_obs fd) = batch_size self
                             \<and> length (fed_acts fd) = batch_size self) new"
  using d z p le
proof (induction es arbitrary: self w ds)
  case Nil
  then show ?case by simp
next
  case (Cons e es)
  from train_epoch_full[OF Cons.prems cb, of rt n e w] obtain self1 w1 ds1 new1 where
    te: "train_epoch rt on_epoch_end n e self w = (Inr (), self1, w1)"
    and d1: "expert_dataset self1 = Some ds1" and n1: "n_samples ds1 = n_samples ds"
    and z1: "next_id ds1 = 0" and b1: "batch_size self1 = batch_size self"
    and r1: "train_runs w1 = train_runs w @ new1"
    and l1: "length new1 = n_samples ds div batch_size self"
    and a1: "list_all (\<lambda>fd. length (fed_obs fd) = batch_size self
                             \<and> length (fed_acts fd) = batch_size self) new1" by blast
  have "\<exists>self' w' ds' new. epoch_loop rt on_epoch_end n es self1 w1 = (Inr (), self', w')
           \<and> expert_dataset self' = Some ds' \<and> n_samples ds' = n_samples ds1 \<and> next_id ds' = 0
           \<and> batch_size self' = batch_size self1
           \<and> train_runs w' = train_runs w1 @ new
           \<and> length new = length es * (n_samples ds1 div batch_size self1)
           \<and> list_all (\<lambda>fd. length (fed_obs fd) = batch_size self1
                             \<and> length (fed_acts fd) = batch_size self1) new"
    by (rule Cons.IH[OF d1 z1]) (use Cons.prems b1 n1 in simp_all)
  then obtain self' w' ds' new where
    el: "epoch_loop rt on_epoch_end n es self1 w1 = (Inr (), self', w')"
    and d2: "expert_dataset self' = Some ds'" and n2: "n_samples ds' = n_samples ds"
    and z2: "next_id ds' = 0" and b2: "batch_size self' = batch_size self"
    and r2: "train_runs w' = train_runs w1 @ new"
    and l2: "length new = length es * (n_samples ds div batch_size self)"
    and a2: "list_all (\<lambda>fd. length (fed_obs fd) = batch_size self
                             \<and> length (fed_acts fd) = batch_size self) new"
    using b1 n1 by auto
  have "epoch_loop rt on_epoch_end n (e # es) self w = (Inr (), self', w')"
    using te el by simp
  moreover have "train_runs w' = train_runs w @ (new1 @ new)" using r1 r2 by simp
  moreover have "length (new1 @ new) = length (e # es) * (n_samples ds div batch_size self)"
    using l1 l2 by simp
  moreover have "list_all (\<lambda>fd. length (fed_obs fd) = batch_size self
                             \<and> length (fed_acts fd) = batch_size self) (new1 @ new)"
    using a1 a2 by simp
  ultimately show ?case using d2 n2 z2 b2 by blast
qed

lemma make_expert_dataset_cursor:
  "next_id (fst (make_expert_dataset demos w)) = 0
   \<and> n_samples (fst (make_expert_dataset demos w)) = length demos"
  by (simp add: make_expert_dataset_def Dataset_init_def shuffle_dataset_def np_random_shuffle_def)

text \<open>
  C3. With a data set of \<open>N\<close> samples whose cursor is at the start (where its
  construction and every completed pass leave it), a batch size \<open>B\<close> with
  \<open>1 \<le> B \<le> N\<close>, \<open>k \<ge> 0\<close> epochs and a callback that does not raise, \<open>train\<close> returns
  normally after exactly \<open>k * (N div B)\<close> optimiser steps, each fed \<open>B\<close> observations and
  \<open>B\<close> actions; the data set is left with \<open>N\<close> samples and its cursor at the start.
\<close>

theorem train_step_count:
  assumes "expert_dataset self = Some ds" and "next_id ds = 0"
      and "0 < batch_size self" and "batch_size self \<le> n_samples ds"
      and "0 \<le> k"
      and "\<forall>f l. on_epoch_end = Some f \<longrightarrow> f l = None"
  shows "\<exists>self' w' ds' new. train rt self k on_epoch_end w = (Inr (), self', w')
           \<and> train_runs w' = train_runs w @ new
           \<and> int (length new) = k * int (n_samples ds div batch_size self)
           \<and> list_all (\<lambda>fd. length (fed_obs fd) = batch_size self
                             \<and> length (fed_acts fd) = batch_size self) new
           \<and> expert_dataset self' = Some ds' \<and> n_samples ds' = n_samples ds \<and> next_id ds' = 0"
proof -
  from epoch_loop_full[OF assms(1-4) assms(6), of rt k "[0..<nat k]" w]
  obtain self' w' ds' new where
    "epoch_loop rt on_epoch_end k [0..<nat k] self w = (Inr (), self', w')"
    "train_runs w' = train_runs w @ new"
    "length new = length [0..<nat k] * (n_samples ds div batch_size self)"
    "list_all (\<lambda>fd. length (fed_obs fd) = batch_size self
                             \<and> length (fed_acts fd) = batch_size self) new"
    "expert_dataset self' = Some ds'" "n_samples ds' = n_samples ds" "next_id ds' = 0" by blast
  moreover from this(3) assms(5)
  have "int (length new) = k * int (n_samples ds div batch_size self)" by simp
  ultimately show ?thesis unfolding train_def by blast
qed

lemma small_trainer_dataset: "expert_dataset small_trainer = Some small_dataset"
  by (simp add: small_trainer_def small_dataset_def BCTrainer_init_def build_tf_graph_def
        construct_policy_def small_policy_def fresh_world_def make_expert_dataset_def
        Dataset_init_def shuffle_dataset_def np_random_shuffle_def Let_def split: prod.splits)

lemma small_dataset_fields: "n_samples small_dataset = 4" "next_id small_dataset = 0"
  by (simp_all add: small_dataset_def make_expert_dataset_def Dataset_init_def
        shuffle_dataset_def np_random_shuffle_def small_demos_def)

lemma small_trainer_batch_size: "batch_size small_trainer = 2"
  by (simp add: small_trainer_def small_dataset_def BCTrainer_init_def build_tf_graph_def
        construct_policy_def small_policy_def fresh_world_def make_expert_dataset_def
        Dataset_init_def shuffle_dataset_def np_random_shuffle_def Let_def split: prod.splits)

theorem train_step_count_witness:
  "expert_dataset small_trainer = Some small_dataset \<and> n_samples small_dataset = 4
   \<and> batch_size small_trainer = 2
   \<and> (\<exists>self' w' ds' new. train small_runtime small_trainer 3 None small_world = (Inr (), self', w')
           \<and> train_runs w' = train_runs small_world @ new
           \<and> int (length new) = 3 * int (4 div 2)
           \<and> list_all (\<lambda>fd. length (fed_obs fd) = 2 \<and> length (fed_acts fd) = 2) new
           \<and> expert_dataset self' = Some ds' \<and> n_samples ds' = 4 \<and> next_id ds' = 0)
   \<and> length (train_runs (snd (snd (train small_runtime small_trainer 3 None small_world)))) = 6"
proof -
  have "length (train_runs (snd (snd (train small_runtime small_trainer 3 None small_world)))) = 6"
    by code_simp
  then show ?thesis
    using train_step_count[of small_trainer small_dataset 3 None small_runtime small_world]
    by (simp add: small_trainer_dataset small_dataset_fields small_trainer_batch_size)
qed

text \<open>
  C10. When the data set has fewer samples than the batch size, the pass yields no
  batch, no optimiser step runs, the moving average is never seeded, and the first
  epoch ends in the \<^verbatim>\<open>TypeError\<close> of formatting \<^verbatim>\<open>None\<close>.
\<close>

theorem train_fewer_samples_than_batch:
  assumes "expert_dataset self = Some ds" and "n_samples ds < batch_size self" and "0 < n_epochs"
  shows "fst (iterate_once (batch_size self) ds w) = []
         \<and> (\<exists>self' w'. train rt self n_epochs on_epoch_end w = (Inl TypeError, self', w')
               \<and> train_runs w' = train_runs w \<and> batch_postfix w' = batch_postfix w
               \<and> epoch_postfix w' = epoch_postfix w
               \<and> session_values w' = session_values w)"
proof -
  from iterate_once_none[OF assms(2), of w] obtain ds' w1 where
    it: "iterate_once (batch_size self) ds w = ([], ds', w1)"
    and w1: "w1 = w\<lparr>np_random := np_random w1\<rparr>" by blast
  have nz: "batch_size self \<noteq> 0" using assms(2) by simp
  have te: "train_epoch rt on_epoch_end n_epochs 0 self w
              = (Inl TypeError, self\<lparr>expert_dataset := Some ds'\<rparr>, w1)"
    using assms(1) nz it by (simp add: train_epoch_def Let_def)
  have "[0..<nat n_epochs] = 0 # [1..<nat n_epochs]"
    using assms(3) by (simp add: upt_conv_Cons)
  then have "train rt self n_epochs on_epoch_end w
               = (Inl TypeError, self\<lparr>expert_dataset := Some ds'\<rparr>, w1)"
    using te by (simp add: train_def)
  moreover have "train_runs w1 = train_runs w" "batch_postfix w1 = batch_postfix w"
    "epoch_postfix w1 = epoch_postfix w" "session_values w1 = session_values w"
    by (subst w1, simp)+
  ultimately show ?thesis using it by simp
qed

theorem train_fewer_samples_than_batch_witness:
  "expert_dataset small_trainer = Some small_dataset \<and> n_samples small_dataset = 4
   \<and> fst (iterate_once 5 small_dataset small_world) = []
   \<and> (\<exists>self' w'. train small_runtime (small_trainer\<lparr>batch_size := 5\<rparr>) 1 None small_world
                      = (Inl TypeError, self', w')
               \<and> train_runs w' = train_runs small_world
               \<and> batch_postfix w' = batch_postfix small_world
               \<and> epoch_postfix w' = epoch_postfix small_world
               \<and> session_values w' = session_values small_world)"
  using train_fewer_samples_than_batch
          [of "small_trainer\<lparr>batch_size := 5\<rparr>" small_dataset 1 small_world small_runtime None]
  by (simp add: small_trainer_dataset small_dataset_fields)

text \<open>
  C5, as the code has it. A trainer without a data set raises \<^verbatim>\<open>AttributeError\<close> at the
  start of the first epoch, before any optimiser step, when it is asked for at least one
  epoch; asked for none, \<open>train\<close> returns normally and does nothing.
\<close>

theorem train_without_dataset:
  assumes "expert_dataset self = None"
  shows "(0 < n_epochs \<longrightarrow> train rt self n_epochs on_epoch_end w = (Inl AttributeError, self, w))
       \<and> (n_epochs \<le> 0 \<longrightarrow> train rt self n_epochs on_epoch_end w = (Inr (), self, w))"
proof (intro conjI impI)
  assume "0 < n_epochs"
  then have "[0..<nat n_epochs] = 0 # [1..<nat n_epochs]" by (simp add: upt_conv_Cons)
  then show "train rt self n_epochs on_epoch_end w = (Inl AttributeError, self, w)"
    using assms by (simp add: train_def train_epoch_def)
next
  assume "n_epochs \<le> 0"
  then show "train rt self n_epochs on_epoch_end w = (Inr (), self, w)"
    by (simp add: train_def)
qed

lemma bare_trainer_dataset: "expert_dataset bare_trainer = None"
  by (simp add: bare_trainer_def BCTrainer_init_def build_tf_graph_def
        construct_policy_def small_policy_def fresh_world_def Let_def split: prod.splits)

theorem train_without_dataset_witness:
  "expert_dataset bare_trainer = None
   \<and> train small_runtime bare_trainer 100 None bare_world = (Inl AttributeError, bare_trainer, bare_world)
   \<and> train small_runtime bare_trainer 0 None bare_world = (Inr (), bare_trainer, bare_world)"
  using train_without_dataset[of bare_trainer 100 small_runtime None bare_world]
        train_without_dataset[of bare_trainer 0 small_runtime None bare_world]
  by (simp add: bare_trainer_dataset)

text \<open>
  A trainer built without demonstrations, asked for no epoch: \<open>train\<close> returns normally.
\<close>

theorem train_zero_epochs_without_dataset:
  "fst (BCTrainer_init small_env None small_policy 32 AdamOptimizer None None False fresh_world)
     = Inr bare_trainer
   \<and> expert_dataset bare_trainer = None
   \<and> fst (train small_runtime bare_trainer 0 None bare_world) = Inr ()"
  by (simp add: bare_trainer_def BCTrainer_init_def build_tf_graph_def
        construct_policy_def small_policy_def fresh_world_def Let_def train_def split: prod.splits)

text \<open>
  C6. The trainer and the world that \<^verbatim>\<open>__init__\<close> produces do not depend on
  \<open>optimiser_cls\<close> and \<open>optimiser_kwargs\<close>, and the training operation of every trainer
  it produces minimises with \<^verbatim>\<open>AdamOptimizer\<close> and no keyword arguments.
\<close>

theorem optimiser_arguments_ignored:
  "BCTrainer_init env' demos pc bs optimiser_cls optimiser_kwargs ns ru w
     = BCTrainer_init env' demos pc bs optimiser_cls' optimiser_kwargs' ns ru w
   \<and> (\<forall>self w'. BCTrainer_init env' demos pc bs optimiser_cls optimiser_kwargs ns ru w = (Inr self, w')
         \<longrightarrow> minimize_with (train_op self) = \<lparr>opt_class = AdamOptimizer, opt_kwargs = []\<rparr>)"
  by (auto simp: BCTrainer_init_def build_tf_graph_def Let_def split: prod.splits option.splits sum.splits)

theorem optimiser_arguments_ignored_witness:
  "BCTrainer_init small_env None small_policy 32 GradientDescentOptimizer
        (Some [(''learning_rate'', 1 / 10)]) None False fresh_world
     = BCTrainer_init small_env None small_policy 32 AdamOptimizer None None False fresh_world
   \<and> BCTrainer_init small_env None small_policy 32 GradientDescentOptimizer
        (Some [(''learning_rate'', 1 / 10)]) None False fresh_world = (Inr bare_trainer, bare_world)
   \<and> minimize_with (train_op bare_trainer) = \<lparr>opt_class = AdamOptimizer, opt_kwargs = []\<rparr>"
proof -
  have i: "BCTrainer_init small_env None small_policy 32 GradientDescentOptimizer
        (Some [(''learning_rate'', 1 / 10)]) None False fresh_world = (Inr bare_trainer, bare_world)"
    by (simp add: bare_trainer_def bare_world_def BCTrainer_init_def build_tf_graph_def
        construct_policy_def small_policy_def fresh_world_def Let_def split: prod.splits)
  from optimiser_arguments_ignored
         [of small_env None small_policy 32 GradientDescentOptimizer
             "Some [(''learning_rate'', 1 / 10)]" None False fresh_world AdamOptimizer None] i
  show ?thesis by simp
qed

lemma next_batch_world:
  "next_batch b ds w = (x, ds', w') \<Longrightarrow> w' = w\<lparr>np_random := np_random w'\<rparr>"
  by (auto simp: next_batch_def Let_def shuffle_dataset_def np_random_shuffle_def
           split: if_splits prod.splits)

lemma iterate_batches_world:
  "iterate_batches b ds w = (bs, ds', w') \<Longrightarrow> w' = w\<lparr>np_random := np_random w'\<rparr>"
proof (induction b ds w arbitrary: bs ds' w' rule: iterate_batches.induct)
  case (1 b ds w)
  show ?case
  proof (cases "0 < b \<and> next_id ds + b \<le> n_samples ds")
    case False
    with "1.prems" show ?thesis by (simp add: iterate_batches.simps)
  next
    case True
    obtain x ds1 w1 where nb: "next_batch b ds w = (x, ds1, w1)"
      by (cases "next_batch b ds w")
    obtain bs2 ds2 w2 where r: "iterate_batches b ds1 w1 = (bs2, ds2, w2)"
      by (cases "iterate_batches b ds1 w1")
    have "iterate_batches b ds w = (x # bs2, ds2, w2)"
      using True nb r by (subst iterate_batches.simps) simp
    with "1.prems" have e: "w' = w2" by simp
    have a: "w2 = w1\<lparr>np_random := np_random w2\<rparr>"
      by (rule "1.IH"[OF True nb[symmetric] refl r])
    have b: "w1 = w\<lparr>np_random := np_random w1\<rparr>" by (rule next_batch_world[OF nb])
    have "w2 = w\<lparr>np_random := np_random w2\<rparr>" by (subst a, subst b) simp
    with e show ?thesis by simp
  qed
qed

lemma iterate_once_world:
  assumes "iterate_once b ds w = (bs, ds', w')"
  shows "w' = w\<lparr>np_random := np_random w'\<rparr>"
proof -
  obtain ds0 w0 where s: "shuffle_dataset ds w = (ds0, w0)" by (cases "shuffle_dataset ds w")
  obtain bs1 ds1 w1 where r: "iterate_batches b ds0 w0 = (bs1, ds1, w1)"
    by (cases "iterate_batches b ds0 w0")
  from assms s r have e: "w' = w1" by (simp add: iterate_once_def)
  have a: "w1 = w0\<lparr>np_random := np_random w1\<rparr>" by (rule iterate_batches_world[OF r])
  have b: "w0 = w\<lparr>np_random := np_random w0\<rparr>" by (rule shuffle_dataset_world[OF s])
  have "w1 = w\<lparr>np_random := np_random w1\<rparr>" by (subst a, subst b) simp
  with e show ?thesis by simp
qed

text \<open>
  C4. Within one epoch the average posted to the epoch progress bar is the fold of
  \<open>a \<mapsto> 0.9 * a + 0.1 * l\<close> over the batch losses of that epoch after the first, started
  from the first; when the epoch has no batch nothing is posted and the epoch ends in
  \<^verbatim>\<open>TypeError\<close>.
\<close>

theorem loss_ewma_recurrence:
  assumes "expert_dataset self = Some ds" and "batch_size self \<noteq> 0"
  shows "\<exists>r self' w' ls. train_epoch rt on_epoch_end n e self w = (r, self', w')
           \<and> batch_postfix w' = batch_postfix w @ ls
           \<and> (case ls of
                 [] \<Rightarrow> r = Inl TypeError \<and> epoch_postfix w' = epoch_postfix w
               | l1 # rest \<Rightarrow>
                   epoch_postfix w' = epoch_postfix w @ [foldl (\<lambda>a l. 0.9 * a + 0.1 * l) l1 rest])"
proof -
  obtain bs ds' w1 where it: "iterate_once (batch_size self) ds w = (bs, ds', w1)"
    by (cases "iterate_once (batch_size self) ds w")
  have w1: "batch_postfix w1 = batch_postfix w" "epoch_postfix w1 = epoch_postfix w"
    by (subst iterate_once_world[OF it], simp)+
  let ?self = "self\<lparr>expert_dataset := Some ds'\<rparr>"
  from batch_loop_trace[of rt ?self bs None w1] obtain ls w2 where
    bl: "batch_loop rt ?self bs None w1
           = ((case ls of [] \<Rightarrow> None | l # r \<Rightarrow> Some (foldl (\<lambda>a l. 0.9 * a + 0.1 * l) l r)), w2)"
    and bp: "batch_postfix w2 = batch_postfix w1 @ ls"
    and ep: "epoch_postfix w2 = epoch_postfix w1"
    by auto
  show ?thesis
  proof (cases ls)
    case Nil
    have "train_epoch rt on_epoch_end n e self w = (Inl TypeError, ?self, w2)"
      using assms it bl Nil by (simp add: train_epoch_def Let_def)
    then show ?thesis using bp ep w1 Nil by auto
  next
    case (Cons l1 rest)
    let ?w3 = "w2\<lparr>epoch_postfix := epoch_postfix w2 @ [foldl (\<lambda>a l. 0.9 * a + 0.1 * l) l1 rest]\<rparr>"
    have "\<exists>r. train_epoch rt on_epoch_end n e self w = (r, ?self, ?w3)"
      using assms it bl Cons by (auto simp: train_epoch_def Let_def split: option.splits)
    then obtain r where "train_epoch rt on_epoch_end n e self w = (r, ?self, ?w3)" ..
    moreover have "batch_postfix ?w3 = batch_postfix w @ ls" using bp w1 by simp
    moreover have "epoch_postfix ?w3 = epoch_postfix w @ [foldl (\<lambda>a l. 0.9 * a + 0.1 * l) l1 rest]"
      using ep w1 by simp
    ultimately show ?thesis using Cons by auto
  qed
qed

theorem loss_ewma_recurrence_witness:
  "expert_dataset small_trainer = Some small_dataset \<and> batch_size small_trainer \<noteq> 0
   \<and> (\<exists>r self' w' ls. train_epoch small_runtime None 1 0 small_trainer small_world = (r, self', w')
           \<and> batch_postfix w' = batch_postfix small_world @ ls
           \<and> (case ls of
                 [] \<Rightarrow> r = Inl TypeError \<and> epoch_postfix w' = epoch_postfix small_world
               | l1 # rest \<Rightarrow>
                   epoch_postfix w' = epoch_postfix small_world @ [foldl (\<lambda>a l. 0.9 * a + 0.1 * l) l1 rest]))
   \<and> batch_postfix (snd (snd (train_epoch small_runtime None 1 0 small_trainer small_world))) = [3, 1]
   \<and> epoch_postfix (snd (snd (train_epoch small_runtime None 1 0 small_trainer small_world))) = [14 / 5]"
proof -
  have "batch_postfix (snd (snd (train_epoch small_runtime None 1 0 small_trainer small_world))) = [3, 1]"
    by code_simp
  moreover
  have "epoch_postfix (snd (snd (train_epoch small_runtime None 1 0 small_trainer small_world))) = [14 / 5]"
    by code_simp
  ultimately show ?thesis
    using loss_ewma_recurrence[of small_trainer small_dataset small_runtime None 1 0 small_world]
    by (simp add: small_trainer_dataset small_trainer_batch_size)
qed

section \<open>Saving and reconstructing a policy\<close>


lemma get_variables_created:
  "get_variables s ds g = (Inr vs, g') \<Longrightarrow>
   vs = map (\<lambda>d. d\<lparr>var_name := s @ ''/'' @ var_name d\<rparr>) ds \<and> g' = g @ vs"
proof (induction ds arbitrary: g vs g')
  case Nil
  then show ?case by simp
next
  case (Cons d ds)
  let ?v = "d\<lparr>var_name := s @ ''/'' @ var_name d\<rparr>"
  from Cons.prems have nc: "var_name ?v \<notin> set (map var_name g)"
    by (auto simp: Let_def split: if_splits)
  obtain r g1 where r: "get_variables s ds (g @ [?v]) = (r, g1)"
    by (cases "get_variables s ds (g @ [?v])")
  with Cons.prems nc obtain vs1 where r1: "r = Inr vs1" and vs: "vs = ?v # vs1" and g': "g' = g1"
    by (cases r) (auto simp: Let_def)
  from Cons.IH[of "g @ [?v]" vs1 g1] r r1
  have "vs1 = map (\<lambda>d. d\<lparr>var_name := s @ ''/'' @ var_name d\<rparr>) ds \<and> g1 = (g @ [?v]) @ vs1" by simp
  with vs g' show ?case by simp
qed

lemma scope_free_no_clash:
  assumes "scope_free g s"
  shows "s @ ''/'' @ n \<notin> set (map var_name g)"
proof
  assume "s @ ''/'' @ n \<in> set (map var_name g)"
  then obtain v where v: "v \<in> set g" and n: "var_name v = s @ ''/'' @ n" by auto
  then have "take (length s) (var_name v) = s" by simp
  with v have "v \<in> set (filter (\<lambda>v. take (length s) (var_name v) = s) g)" by simp
  with assms show False by (simp add: scope_free_def)
qed

lemma get_collection_new_scope:
  assumes "scope_free g s"
  shows "get_collection (g @ map (\<lambda>d. d\<lparr>var_name := s @ ''/'' @ var_name d\<rparr>) ds) s
           = map (\<lambda>d. d\<lparr>var_name := s @ ''/'' @ var_name d\<rparr>) (filter trainable ds)"
proof -
  have "\<forall>v\<in>set g. take (length s) (var_name v) \<noteq> s"
    using assms by (simp add: scope_free_def filter_empty_conv)
  then have "filter (\<lambda>v. trainable v \<and> take (length s) (var_name v) = s) g = []"
    by (simp add: filter_empty_conv)
  moreover have "filter (\<lambda>v. trainable v \<and> take (length s) (var_name v) = s)
                   (map (\<lambda>d. d\<lparr>var_name := s @ ''/'' @ var_name d\<rparr>) ds)
                 = map (\<lambda>d. d\<lparr>var_name := s @ ''/'' @ var_name d\<rparr>) (filter trainable ds)"
    by (induction ds) simp_all
  ultimately show ?thesis by (simp add: get_collection_def)
qed








text \<open>
  The state \<open>policy_built\<close> is the one the constructor leaves: in a graph with nothing
  under \<^verbatim>\<open>bc_supervised_loss/model\<close> yet, and for a class whose initial values have the
  declared shapes and element types, every trainer that \<^verbatim>\<open>__init__\<close> returns satisfies
  it.
\<close>

lemma get_variables_distinct:
  "get_variables s ds g = (Inr vs, g') \<Longrightarrow> distinct (map var_name ds)"
proof (induction ds arbitrary: g vs g')
  case Nil
  show ?case by simp
next
  case (Cons d ds)
  let ?v = "d\<lparr>var_name := s @ ''/'' @ var_name d\<rparr>"
  from Cons.prems have nc: "var_name ?v \<notin> set (map var_name g)"
    by (auto simp: Let_def split: if_splits)
  obtain r g1 where r: "get_variables s ds (g @ [?v]) = (r, g1)"
    by (cases "get_variables s ds (g @ [?v])")
  with Cons.prems nc obtain vs1 where r1: "r = Inr vs1"
    by (cases r) (auto simp: Let_def)
  from Cons.IH[OF r[unfolded r1]] have d1: "distinct (map var_name ds)" .
  have "var_name d \<notin> set (map var_name ds)"
  proof
    assume "var_name d \<in> set (map var_name ds)"
    then obtain d' where m: "d' \<in> set ds" and e: "var_name d' = var_name d" by auto
    have "\<And>g. s @ ''/'' @ var_name d \<in> set (map var_name g) \<Longrightarrow> d' \<in> set ds
              \<Longrightarrow> fst (get_variables s ds g) = Inl ValueError"
    proof (induction ds)
      case Nil
      then show ?case by simp
    next
      case (Cons a ds g)
      show ?case
      proof (cases "s @ ''/'' @ var_name a \<in> set (map var_name g)")
        case True
        then show ?thesis by (simp add: Let_def)
      next
        case False
        show ?thesis
        proof (cases "a = d'")
          case True
          with e Cons.prems(1) False show ?thesis by simp
        next
          case False
          with Cons.prems(2) have m': "d' \<in> set ds" by simp
          have "s @ ''/'' @ var_name d \<in> set (map var_name (g @ [a\<lparr>var_name := s @ ''/'' @ var_name a\<rparr>]))"
            using Cons.prems(1) by simp
          from Cons.IH[OF this m'] \<open>s @ ''/'' @ var_name a \<notin> set (map var_name g)\<close>
          show ?thesis by (auto simp: Let_def split: prod.splits sum.splits)
        qed
      qed
    qed
    from this[of "g @ [?v]", OF _ m] have "fst (get_variables s ds (g @ [?v])) = Inl ValueError"
      by simp
    with r r1 show False by simp
  qed
  with d1 show ?case by simp
qed

lemma make_expert_dataset_graph:
  "graph_variables (snd (make_expert_dataset demos w)) = graph_variables w
   \<and> default_session (snd (make_expert_dataset demos w)) = default_session w
   \<and> session_values (snd (make_expert_dataset demos w)) = session_values w"
  by (simp add: make_expert_dataset_def Dataset_init_def shuffle_dataset_def np_random_shuffle_def)

lemma BCTrainer_init_policy_built:
  assumes init: "BCTrainer_init env' demos pc bs oc ok ns ru w = (Inr self, w')"
      and free: "scope_free (graph_variables w) ''bc_supervised_loss/model''"
      and ini: "list_all (\<lambda>d. shape (initial_value d) = var_shape d
                               \<and> dtype (initial_value d) = var_dtype d)
                  (pc \<lparr>ob_space = observation_space env', ac_space = action_space env',
                       n_batch = None, n_env = 1, n_steps = 1000\<rparr>)"
  shows "policy_built self w'"
proof -
  let ?kw = "\<lparr>ob_space = observation_space env', ac_space = action_space env',
               n_batch = None, n_env = 1, n_steps = 1000\<rparr>"
  let ?sc = "''bc_supervised_loss/model''"
  let ?ren = "\<lambda>d. d\<lparr>var_name := ?sc @ ''/'' @ var_name d\<rparr>"
  define w1 where "w1 = (case demos of Some d \<Rightarrow> snd (make_expert_dataset d w) | None \<Rightarrow> w)"
  have g1: "graph_variables w1 = graph_variables w"
    unfolding w1_def by (cases demos) (simp_all add: make_expert_dataset_graph)
  obtain rg g' where gv: "get_variables ?sc (pc ?kw) (graph_variables w1) = (rg, g')"
    by (cases "get_variables ?sc (pc ?kw) (graph_variables w1)")
  from init obtain s where s: "default_session w1 = Some s"
    unfolding w1_def
    by (auto simp: BCTrainer_init_def split: option.splits prod.splits sum.splits)
  from init s gv obtain vs where rg: "rg = Inr vs"
    unfolding w1_def
    by (cases rg)
       (auto simp: BCTrainer_init_def build_tf_graph_def construct_policy_def Let_def
             split: option.splits prod.splits sum.splits)
  from init s gv rg have self:
    "policy_class self = pc" "policy_kwargs self = ?kw" "sess self = s"
    "policy_variables self = get_collection g' ?sc"
    and w': "w' = global_variables_initializer s (w1\<lparr>graph_variables := g'\<rparr>)"
    unfolding w1_def
    by (auto simp: BCTrainer_init_def build_tf_graph_def construct_policy_def Let_def
             split: option.splits prod.splits sum.splits)
  from get_variables_created[OF gv[unfolded rg]]
  have vs: "vs = map ?ren (pc ?kw)" and g': "g' = graph_variables w @ vs" using g1 by simp_all
  have dis: "distinct (map var_name (pc ?kw))"
    by (rule get_variables_distinct[OF gv[unfolded rg]])
  have pv: "policy_variables self = map ?ren (filter trainable (pc ?kw))"
    unfolding self g' vs by (rule get_collection_new_scope[OF free])
  have c2: "map var_shape (policy_variables self) = map var_shape (filter trainable (pc ?kw))"
    unfolding pv by (simp add: comp_def)
  have dvs: "distinct (map var_name vs)"
  proof -
    have "distinct (map (\<lambda>d. ?sc @ ''/'' @ var_name d) (pc ?kw))"
      using dis by (induction "pc ?kw" arbitrary: ) (auto simp: distinct_map inj_on_def)
    then show ?thesis unfolding vs by (simp add: comp_def)
  qed
  have c2d: "map var_dtype (policy_variables self) = map var_dtype (filter trainable (pc ?kw))"
    unfolding pv by (simp add: comp_def)
  have c3: "list_all (\<lambda>v. case session_values w' s (var_name v) of
                            None \<Rightarrow> False
                          | Some x \<Rightarrow> shape x = var_shape v \<and> dtype x = var_dtype v)
              (policy_variables self)"
    unfolding list_all_iff
  proof
    fix v assume "v \<in> set (policy_variables self)"
    then obtain d where d: "d \<in> set (pc ?kw)" and v: "v = ?ren d" unfolding pv by auto
    then have vin: "v \<in> set vs" unfolding vs by simp
    have nin: "var_name v \<notin> set (map var_name (graph_variables w))"
      unfolding v using scope_free_no_clash[OF free] by simp
    let ?pairs = "\<lambda>g. map (\<lambda>v. (var_name v, initial_value v)) g"
    have a: "map_of (?pairs (graph_variables w)) (var_name v) = None"
      using nin by (simp add: map_of_eq_None_iff image_image)
    have b: "map_of (?pairs vs) (var_name v) = Some (initial_value v)"
      by (rule map_of_is_SomeI) (use dvs vin in \<open>auto simp: comp_def\<close>)
    have "session_values w' s (var_name v) = Some (initial_value v)"
      unfolding w' global_variables_initializer_def g' using a b
      by (simp add: map_add_def)
    moreover have "shape (initial_value v) = var_shape v \<and> dtype (initial_value v) = var_dtype v"
      using ini d unfolding v by (simp add: list_all_iff)
    ultimately show "case session_values w' s (var_name v) of
                       None \<Rightarrow> False
                     | Some x \<Rightarrow> shape x = var_shape v \<and> dtype x = var_dtype v" by simp
  qed
  show ?thesis unfolding policy_built_def using dis c2 c2d c3 self by simp
qed










end
